theory Spec2Isabelle
  imports Complex_Main "HOL-Library.Sublist"
begin

section \<open>Error objects as the provider layer reads them\<close>

text \<open>
  The provider layer receives errors of TypeScript type \<open>any\<close> and reads a handful of
  optional properties from them: \<open>message\<close>, \<open>type\<close>, \<open>status\<close>, \<open>statusCode\<close> and the
  nested \<open>error.message\<close> and \<open>error.type\<close>. A property that is absent (\<open>undefined\<close>)
  is \<open>None\<close>. Text properties are strings, status properties are numbers; HTTP status
  codes are integers, so a number is an \<open>int\<close> here. The JavaScript operator \<open>||\<close> yields
  its left operand when that is truthy and its right operand otherwise; the falsy values
  of these types are \<open>undefined\<close>, the empty string and \<open>0\<close>.
\<close>

record inner_error =
  inner_message :: "string option"
  inner_type :: "string option"

record raw_error =
  message :: "string option"
  type :: "string option"
  status :: "int option"
  statusCode :: "int option"
  error :: "inner_error option"

text \<open>
  A thrown or rejected value: an error object, or \<open>undefined\<close> (what \<open>throw lastError\<close>
  raises when \<open>lastError\<close> was never assigned).
\<close>

datatype thrown = Undefined | Thrown raw_error

definition truthy_str :: "string option \<Rightarrow> bool" where
  "truthy_str x = (case x of None \<Rightarrow> False | Some s \<Rightarrow> s \<noteq> [])"

definition truthy_num :: "int option \<Rightarrow> bool" where
  "truthy_num x = (case x of None \<Rightarrow> False | Some n \<Rightarrow> n \<noteq> 0)"

definition or_str :: "string option \<Rightarrow> string option \<Rightarrow> string option" where
  "or_str a b = (if truthy_str a then a else b)"

definition or_num :: "int option \<Rightarrow> int option \<Rightarrow> int option" where
  "or_num a b = (if truthy_num a then a else b)"

text \<open>\<open>x || "literal"\<close> and \<open>x || 500\<close>: the right operand is a truthy literal.\<close>

definition or_str_default :: "string option \<Rightarrow> string \<Rightarrow> string" where
  "or_str_default a d = (case a of None \<Rightarrow> d | Some s \<Rightarrow> if s \<noteq> [] then s else d)"

definition or_num_default :: "int option \<Rightarrow> int \<Rightarrow> int" where
  "or_num_default a d = (case a of None \<Rightarrow> d | Some n \<Rightarrow> if n \<noteq> 0 then n else d)"

text \<open>Optional chaining: \<open>error?.p\<close> is \<open>undefined\<close> when \<open>error\<close> is.\<close>

definition opt_message :: "thrown \<Rightarrow> string option" where
  "opt_message e = (case e of Undefined \<Rightarrow> None | Thrown r \<Rightarrow> message r)"

definition opt_type :: "thrown \<Rightarrow> string option" where
  "opt_type e = (case e of Undefined \<Rightarrow> None | Thrown r \<Rightarrow> type r)"

definition opt_status :: "thrown \<Rightarrow> int option" where
  "opt_status e = (case e of Undefined \<Rightarrow> None | Thrown r \<Rightarrow> status r)"

definition opt_statusCode :: "thrown \<Rightarrow> int option" where
  "opt_statusCode e = (case e of Undefined \<Rightarrow> None | Thrown r \<Rightarrow> statusCode r)"

definition opt_error_message :: "thrown \<Rightarrow> string option" where
  "opt_error_message e =
     (case e of Undefined \<Rightarrow> None
      | Thrown r \<Rightarrow> (case error r of None \<Rightarrow> None | Some i \<Rightarrow> inner_message i))"

definition opt_error_type :: "thrown \<Rightarrow> string option" where
  "opt_error_type e =
     (case e of Undefined \<Rightarrow> None
      | Thrown r \<Rightarrow> (case error r of None \<Rightarrow> None | Some i \<Rightarrow> inner_type i))"

section \<open>The typed error taxonomy (OpenAIErrors.ts)\<close>

text \<open>
  One constructor per error class of the source; \<open>name\<close> is the class, the other fields
  are the ones the base class \<open>OpenAIError\<close> stores.
\<close>

datatype error_class =
    OpenAIError
  | OpenAIAuthenticationError
  | OpenAIRateLimitError
  | OpenAIQuotaError
  | OpenAINotFoundError
  | OpenAIValidationError
  | OpenAITimeoutError
  | OpenAIServerError
  | OpenAIConfigurationError

record openai_error =
  name :: error_class
  err_message :: string
  err_type :: string
  err_statusCode :: int
  originalError :: thrown

definition new_OpenAIError :: "string \<Rightarrow> string \<Rightarrow> int \<Rightarrow> thrown \<Rightarrow> openai_error" where
  "new_OpenAIError m t c orig =
     \<lparr>name = OpenAIError, err_message = m, err_type = t, err_statusCode = c,
      originalError = orig\<rparr>"

definition new_OpenAIAuthenticationError :: "string \<Rightarrow> thrown \<Rightarrow> openai_error" where
  "new_OpenAIAuthenticationError m orig =
     (new_OpenAIError m ''authentication_error'' 401 orig)\<lparr>name := OpenAIAuthenticationError\<rparr>"

definition new_OpenAIRateLimitError :: "string \<Rightarrow> thrown \<Rightarrow> openai_error" where
  "new_OpenAIRateLimitError m orig =
     (new_OpenAIError m ''rate_limit_error'' 429 orig)\<lparr>name := OpenAIRateLimitError\<rparr>"

definition new_OpenAIQuotaError :: "string \<Rightarrow> thrown \<Rightarrow> openai_error" where
  "new_OpenAIQuotaError m orig =
     (new_OpenAIError m ''insufficient_quota'' 429 orig)\<lparr>name := OpenAIQuotaError\<rparr>"

definition new_OpenAINotFoundError :: "string \<Rightarrow> thrown \<Rightarrow> openai_error" where
  "new_OpenAINotFoundError m orig =
     (new_OpenAIError m ''not_found_error'' 404 orig)\<lparr>name := OpenAINotFoundError\<rparr>"

definition new_OpenAIValidationError :: "string \<Rightarrow> thrown \<Rightarrow> openai_error" where
  "new_OpenAIValidationError m orig =
     (new_OpenAIError m ''invalid_request_error'' 400 orig)\<lparr>name := OpenAIValidationError\<rparr>"

definition new_OpenAITimeoutError :: "string \<Rightarrow> thrown \<Rightarrow> openai_error" where
  "new_OpenAITimeoutError m orig =
     (new_OpenAIError m ''timeout_error'' 408 orig)\<lparr>name := OpenAITimeoutError\<rparr>"

definition new_OpenAIServerError :: "string \<Rightarrow> thrown \<Rightarrow> openai_error" where
  "new_OpenAIServerError m orig =
     (new_OpenAIError m ''server_error'' 500 orig)\<lparr>name := OpenAIServerError\<rparr>"

definition new_OpenAIConfigurationError :: "string \<Rightarrow> thrown \<Rightarrow> openai_error" where
  "new_OpenAIConfigurationError m orig =
     (new_OpenAIError m ''configuration_error'' 500 orig)\<lparr>name := OpenAIConfigurationError\<rparr>"

subsection \<open>The classifier \<open>mapOpenAIError\<close>\<close>

text \<open>The three locals the classifier extracts from the raw error.\<close>

definition errorMessage :: "thrown \<Rightarrow> string" where
  "errorMessage e =
     or_str_default (or_str (opt_message e) (opt_error_message e))
       ''Error desconocido de OpenAI''"

definition errorType :: "thrown \<Rightarrow> string option" where
  "errorType e = or_str (opt_type e) (opt_error_type e)"

definition rawStatusCode :: "thrown \<Rightarrow> int option" where
  "rawStatusCode e = or_num (opt_status e) (opt_statusCode e)"

text \<open>
  The body of \<open>if (statusCode) { ... }\<close>: the chain of status tests, each returning on
  a match; \<open>None\<close> when no test matches and control falls out of the block.
\<close>

definition mapByStatusCode :: "int \<Rightarrow> string \<Rightarrow> thrown \<Rightarrow> openai_error option" where
  "mapByStatusCode c m e =
     (if c = 401 then Some (new_OpenAIAuthenticationError m e)
      else if c = 404 then Some (new_OpenAINotFoundError m e)
      else if c = 429 then Some (new_OpenAIRateLimitError m e)
      else if c = 408 then Some (new_OpenAITimeoutError m e)
      else if 400 \<le> c \<and> c < 500 then Some (new_OpenAIValidationError m e)
      else if 500 \<le> c then Some (new_OpenAIServerError m e)
      else None)"

text \<open>
  The \<open>switch\<close> on the type tag comes first and returns on a match; the status code is
  consulted only when no case matched; the generic error is what is left.
\<close>

definition mapOpenAIError :: "thrown \<Rightarrow> openai_error" where
  "mapOpenAIError e =
     (let m = errorMessage e; t = errorType e; c = rawStatusCode e in
      if t = Some ''invalid_api_key'' \<or> t = Some ''authentication_error''
        then new_OpenAIAuthenticationError m e
      else if t = Some ''rate_limit_exceeded'' then new_OpenAIRateLimitError m e
      else if t = Some ''insufficient_quota'' then new_OpenAIQuotaError m e
      else if t = Some ''invalid_request_error'' then new_OpenAIValidationError m e
      else if t = Some ''not_found'' then new_OpenAINotFoundError m e
      else
        (case (if truthy_num c then mapByStatusCode (the c) m e else None) of
           Some r \<Rightarrow> r
         | None \<Rightarrow>
             new_OpenAIError m (or_str_default t ''unknown_error'') (or_num_default c 500) e))"

text \<open>The type tags that the \<open>switch\<close> has a case for.\<close>

definition recognized_tag :: "string option \<Rightarrow> bool" where
  "recognized_tag t =
     (t = Some ''invalid_api_key'' \<or> t = Some ''authentication_error'' \<or>
      t = Some ''rate_limit_exceeded'' \<or> t = Some ''insufficient_quota'' \<or>
      t = Some ''invalid_request_error'' \<or> t = Some ''not_found'')"

text \<open>\<open>new Error(msg)\<close>: an error object with a message and nothing else.\<close>

definition new_Error :: "string \<Rightarrow> raw_error" where
  "new_Error msg =
     \<lparr>message = Some msg, type = None, status = None, statusCode = None, error = None\<rparr>"

section \<open>The retry executor (AIProvider.retryOperation)\<close>

text \<open>
  The operation is an external asynchronous call; \<open>operation k\<close> is the outcome of its \<open>k\<close>-th
  invocation, \<open>Inl\<close> a rejection with an error object and \<open>Inr\<close> a value. Attempt \<open>k\<close> of
  the loop makes the \<open>k\<close>-th invocation. A run records what the caller and the
  environment can observe: the outcome, how often the operation was invoked, and the
  delays passed to \<open>sleep\<close>, in order. \<open>maxRetries\<close> and \<open>delayMs\<close> are JavaScript numbers,
  integers here. The warning that is logged before each sleep is not recorded.
\<close>

text \<open>
  The test \<open>error.statusCode && error.statusCode < 500\<close>, which the source's comment
  describes as a client error (4xx).
\<close>

definition is_client_error :: "raw_error \<Rightarrow> bool" where
  "is_client_error err = (truthy_num (statusCode err) \<and> the (statusCode err) < 500)"

record 'a retry_run =
  outcome :: "thrown + 'a"
  invocations :: nat
  sleeps :: "int list"

function retry_loop ::
  "(nat \<Rightarrow> raw_error + 'a) \<Rightarrow> int \<Rightarrow> int \<Rightarrow> nat \<Rightarrow> thrown \<Rightarrow> nat \<Rightarrow> int list \<Rightarrow> 'a retry_run"
where
  "retry_loop operation maxRetries delayMs attempt lastError calls slept =
     (if int attempt \<le> maxRetries then
        (case operation attempt of
           Inr v \<Rightarrow> \<lparr>outcome = Inr v, invocations = Suc calls, sleeps = slept\<rparr>
         | Inl err \<Rightarrow>
             if is_client_error err
             then \<lparr>outcome = Inl (Thrown err), invocations = Suc calls, sleeps = slept\<rparr>
             else if int attempt < maxRetries
             then retry_loop operation maxRetries delayMs (Suc attempt) (Thrown err)
                    (Suc calls) (slept @ [delayMs * int attempt])
             else retry_loop operation maxRetries delayMs (Suc attempt) (Thrown err)
                    (Suc calls) slept)
      else \<lparr>outcome = Inl lastError, invocations = calls, sleeps = slept\<rparr>)"
  by pat_completeness auto
termination
  by (relation "measure (\<lambda>(operation, maxRetries, delayMs, attempt, lastError, calls, slept).
        nat (maxRetries + 1 - int attempt))") auto

declare retry_loop.simps [simp del]

definition retryOperation :: "(nat \<Rightarrow> raw_error + 'a) \<Rightarrow> int \<Rightarrow> int \<Rightarrow> 'a retry_run" where
  "retryOperation operation maxRetries delayMs =
     retry_loop operation maxRetries delayMs 1 Undefined 0 []"

section \<open>Metadata sanitising (AIProvider.sanitizeMetadata)\<close>

text \<open>
  Metadata is a \<open>Record<string, any>\<close>: an object whose property values are arbitrary
  values. An object is the list of its own enumerable properties in the order
  \<open>Object.entries\<close> yields them, with pairwise distinct keys. The code only asks a number
  for its \<open>typeof\<close>, so the representation of numbers is left open (the type \<open>'n\<close>).
\<close>

datatype 'n jsval =
    JUndefined
  | JNull
  | JBool bool
  | JNum 'n
  | JStr string
  | JObj "(string \<times> 'n jsval) list"
  | JArr "'n jsval list"

text \<open>\<open>typeof value\<close> is \<open>"string"\<close>, \<open>"number"\<close> or \<open>"boolean"\<close>.\<close>

fun is_scalar :: "'n jsval \<Rightarrow> bool" where
  "is_scalar (JStr s) = True"
| "is_scalar (JNum n) = True"
| "is_scalar (JBool b) = True"
| "is_scalar v = False"

text \<open>
  Defining or overwriting an own property: overwrite it when it exists, append it
  otherwise.
\<close>

fun obj_set ::
  "(string \<times> 'n jsval) list \<Rightarrow> string \<Rightarrow> 'n jsval \<Rightarrow> (string \<times> 'n jsval) list"
where
  "obj_set [] k v = [(k, v)]"
| "obj_set ((k', v') # ps) k v = (if k' = k then (k, v) # ps else (k', v') # obj_set ps k v)"

text \<open>
  The assignment \<open>sanitized[key] = value\<close> on an object created by \<open>{}\<close>. For the key
  \<open>__proto__\<close> the assignment reaches the accessor that \<open>Object.prototype\<close> defines
  under that name; the accessor creates no own property, and it ignores the strings,
  numbers and booleans that the loop assigns. For every other key the assignment
  defines or overwrites an own property.
\<close>

definition assign ::
  "(string \<times> 'n jsval) list \<Rightarrow> string \<Rightarrow> 'n jsval \<Rightarrow> (string \<times> 'n jsval) list"
where
  "assign obj k v = (if k = ''__proto__'' then obj else obj_set obj k v)"

subsection \<open>\<open>sanitizeMetadata\<close>\<close>

text \<open>
  The \<open>for ... of Object.entries(metadata)\<close> loop, with \<open>sanitized\<close> as accumulator.
  \<open>JSON.stringify\<close> is a built-in of the language, not code of this repository; it is
  the parameter \<open>stringify\<close>.
\<close>

fun sanitize_loop ::
  "('n jsval \<Rightarrow> string) \<Rightarrow> (string \<times> 'n jsval) list \<Rightarrow> (string \<times> 'n jsval) list \<Rightarrow>
     (string \<times> 'n jsval) list"
where
  "sanitize_loop stringify [] sanitized = sanitized"
| "sanitize_loop stringify ((key, val) # entries) sanitized =
     (if is_scalar val then sanitize_loop stringify entries (assign sanitized key val)
      else if val = JNull \<or> val = JUndefined then sanitize_loop stringify entries sanitized
      else sanitize_loop stringify entries (assign sanitized key (JStr (stringify val))))"

text \<open>
  \<open>None\<close> is \<open>undefined\<close>: the argument may be omitted, and the result is \<open>undefined\<close>
  when \<open>sanitized\<close> has no own property.
\<close>

definition sanitizeMetadata ::
  "('n jsval \<Rightarrow> string) \<Rightarrow> (string \<times> 'n jsval) list option \<Rightarrow>
     (string \<times> 'n jsval) list option"
where
  "sanitizeMetadata stringify metadata =
     (case metadata of
        None \<Rightarrow> None
      | Some entries \<Rightarrow>
          (let sanitized = sanitize_loop stringify entries [] in
           if length sanitized > 0 then Some sanitized else None))"

text \<open>
  What the loop body assigns for one value, by its three branches: the value itself,
  nothing, or the serialised value.
\<close>

definition sanitized_value :: "('n jsval \<Rightarrow> string) \<Rightarrow> 'n jsval \<Rightarrow> 'n jsval option" where
  "sanitized_value stringify v =
     (if is_scalar v then Some v
      else if v = JNull \<or> v = JUndefined then None
      else Some (JStr (stringify v)))"

section \<open>Attach polling (OpenAIProvider.waitForVectorStoreFile)\<close>

text \<open>
  The vendor's record of a file attached to a vector store, with the fields the polling
  code reads; \<open>last_error_message\<close> is \<open>last_error?.message\<close>.
\<close>

record vs_file =
  file_id :: string
  file_status :: string
  created_at :: int
  last_error_message :: "string option"

text \<open>
  The text a template literal gives for a number, here the attempt budget in
  \<open>${maxAttempts}\<close>: JavaScript prints an integer of magnitude below \<open>10^21\<close> in plain
  decimal, with a minus sign when it is negative.
\<close>

function show_nat :: "nat \<Rightarrow> string" where
  "show_nat n =
     (if n < 10 then [''0123456789'' ! n]
      else show_nat (n div 10) @ [''0123456789'' ! (n mod 10)])"
  by pat_completeness auto
termination
  by (relation "measure id") auto

declare show_nat.simps [simp del]

definition show_int :: "int \<Rightarrow> string" where
  "show_int i = (if i < 0 then ''-'' @ show_nat (nat (- i)) else show_nat (nat i))"

text \<open>
  Messages of the source contain accented letters; a string is a list of bytes, so they
  are written as their UTF-8 bytes.
\<close>

definition a_acute :: string where "a_acute = [CHR 0xC3, CHR 0xA1]"
definition e_acute :: string where "e_acute = [CHR 0xC3, CHR 0xA9]"
definition o_acute :: string where "o_acute = [CHR 0xC3, CHR 0xB3]"

definition failed_message :: "string \<Rightarrow> string" where
  "failed_message errorMsg = ''Archivo fall'' @ o_acute @ '' al procesarse: '' @ errorMsg"

definition cancelled_message :: string where
  "cancelled_message = ''Procesamiento del archivo fue cancelado''"

definition timeout_message :: "int \<Rightarrow> string" where
  "timeout_message maxAttempts =
     ''Timeout: Archivo no complet'' @ o_acute @ '' procesamiento despu'' @ e_acute @
     ''s de '' @ show_int maxAttempts @ '' intentos''"

text \<open>
  What the \<open>try\<close> block does with the outcome of one \<open>retrieve\<close> call: return the
  record, throw, or fall out of the block into the next iteration. A rejection of
  \<open>retrieve\<close> itself is a throw inside the block as well.
\<close>

datatype poll_step = Return vs_file | Raise raw_error | Continue

definition poll_try :: "raw_error + vs_file \<Rightarrow> poll_step" where
  "poll_try r =
     (case r of
        Inl err \<Rightarrow> Raise err
      | Inr file \<Rightarrow>
          if file_status file = ''completed'' then Return file
          else if file_status file = ''failed''
            then Raise (new_Error
                   (failed_message (or_str_default (last_error_message file) ''Unknown error'')))
          else if file_status file = ''cancelled'' then Raise (new_Error cancelled_message)
          else Continue)"

text \<open>
  A run of the polling loop: the outcome, the number of \<open>retrieve\<close> calls made and the
  delays waited, in order. \<open>retrieve k\<close> is the outcome of the \<open>k\<close>-th poll. Delays are
  rationals: the factor is \<open>1.5\<close>, and every delay that arises from the default
  \<open>1000\<close> is a number that JavaScript's doubles represent exactly. The provider is
  taken to be initialised (so \<open>getClient\<close> succeeds), and log lines are not recorded.
\<close>

record poll_run =
  poll_result :: "raw_error + vs_file"
  polls :: nat
  waits :: "rat list"

function wait_loop ::
  "(nat \<Rightarrow> raw_error + vs_file) \<Rightarrow> int \<Rightarrow> nat \<Rightarrow> rat \<Rightarrow> nat \<Rightarrow> rat list \<Rightarrow> poll_run"
where
  "wait_loop retrieve maxAttempts attempt delayMs polled waited =
     (if int attempt \<le> maxAttempts then
        (let waited' = (if attempt > 1 then waited @ [delayMs] else waited);
             delayMs' = (if attempt > 1 then min (delayMs * (3 / 2)) 5000 else delayMs)
         in case poll_try (retrieve attempt) of
              Return file \<Rightarrow>
                \<lparr>poll_result = Inr file, polls = Suc polled, waits = waited'\<rparr>
            | Continue \<Rightarrow>
                wait_loop retrieve maxAttempts (Suc attempt) delayMs' (Suc polled) waited'
            | Raise err \<Rightarrow>
                if status err = Some 404 \<and> int attempt < maxAttempts
                then wait_loop retrieve maxAttempts (Suc attempt) delayMs' (Suc polled) waited'
                else \<lparr>poll_result = Inl err, polls = Suc polled, waits = waited'\<rparr>)
      else \<lparr>poll_result = Inl (new_Error (timeout_message maxAttempts)),
             polls = polled, waits = waited\<rparr>)"
  by pat_completeness auto
termination
  by (relation "measure (\<lambda>(retrieve, maxAttempts, attempt, delayMs, polled, waited).
        nat (maxAttempts + 1 - int attempt))") auto

declare wait_loop.simps [simp del]

definition waitForVectorStoreFile ::
  "(nat \<Rightarrow> raw_error + vs_file) \<Rightarrow> int \<Rightarrow> rat \<Rightarrow> poll_run"
where
  "waitForVectorStoreFile retrieve maxAttempts initialDelayMs =
     wait_loop retrieve maxAttempts 1 initialDelayMs 0 []"

text \<open>The backoff schedule in the specification's words: start, then \<open>min(prev * 1.5, 5000)\<close>.\<close>

fun backoff_delay :: "nat \<Rightarrow> rat" where
  "backoff_delay 0 = 1000"
| "backoff_delay (Suc k) = min (backoff_delay k * (3 / 2)) 5000"

text \<open>
  A poll outcome after which the loop goes on while attempts remain: a record in a
  non-terminal status, or a rejection with status 404.
\<close>

definition not_ready :: "raw_error + vs_file \<Rightarrow> bool" where
  "not_ready r =
     (case poll_try r of
        Continue \<Rightarrow> True
      | Raise err \<Rightarrow> status err = Some 404
      | Return file \<Rightarrow> False)"

text \<open>
  The loop entered at attempt \<open>a\<close> in the state it has there when it was started with
  initial delay 1000: \<open>a - 1\<close> polls made, the waits before attempts \<open>2 .. a - 1\<close> done.
\<close>

definition poll_from :: "(nat \<Rightarrow> raw_error + vs_file) \<Rightarrow> int \<Rightarrow> nat \<Rightarrow> poll_run" where
  "poll_from retrieve maxAttempts a =
     wait_loop retrieve maxAttempts a (backoff_delay (a - 2)) (a - 1)
       (map backoff_delay [0..<a - 2])"

subsection \<open>\<open>createAndPollVectorStoreFile\<close> and \<open>addFileToVectorStore\<close>\<close>

record FileInfo =
  fi_id :: string
  fi_name :: string
  fi_size :: int
  fi_status :: string
  fi_createdAt :: int

definition to_FileInfo :: "vs_file \<Rightarrow> FileInfo" where
  "to_FileInfo f =
     \<lparr>fi_id = file_id f, fi_name = [], fi_size = 0, fi_status = file_status f,
      fi_createdAt = created_at f\<rparr>"

text \<open>
  \<open>created\<close> is the outcome of the vendor's attach call. Polling runs with the default
  budget of 60 attempts and initial delay 1000, and only when the attach call reports
  \<open>in_progress\<close>. Whatever is thrown inside the \<open>try\<close> goes through \<open>mapOpenAIError\<close>.
\<close>

definition createAndPollVectorStoreFile ::
  "(raw_error + vs_file) \<Rightarrow> (nat \<Rightarrow> raw_error + vs_file) \<Rightarrow> openai_error + FileInfo"
where
  "createAndPollVectorStoreFile created retrieve =
     (case created of
        Inl err \<Rightarrow> Inl (mapOpenAIError (Thrown err))
      | Inr file \<Rightarrow>
          if file_status file = ''in_progress'' then
            (case poll_result (waitForVectorStoreFile retrieve 60 1000) of
               Inl err \<Rightarrow> Inl (mapOpenAIError (Thrown err))
             | Inr processedFile \<Rightarrow> Inr (to_FileInfo processedFile))
          else Inr (to_FileInfo file))"

definition addFileToVectorStore ::
  "(raw_error + vs_file) \<Rightarrow> (nat \<Rightarrow> raw_error + vs_file) \<Rightarrow> openai_error + FileInfo"
where
  "addFileToVectorStore created retrieve = createAndPollVectorStoreFile created retrieve"

section \<open>Configuration (OpenAIConfig.ts)\<close>

text \<open>
  \<open>Partial<OpenAIProviderConfig>\<close> has every property optional; the validated
  \<open>OpenAIProviderConfig\<close> has a credential. The object spread
  \<open>{...DEFAULT_OPENAI_CONFIG, ...config, apiKey}\<close> takes each property from \<open>config\<close> when
  it is given there and from the defaults otherwise.
\<close>

record partial_config =
  p_apiKey :: "string option"
  p_organization :: "string option"
  p_baseURL :: "string option"
  p_timeout :: "int option"
  p_maxRetries :: "int option"
  p_defaultHeaders :: "(string \<times> string) list option"

record OpenAIProviderConfig =
  apiKey :: string
  organization :: "string option"
  baseURL :: "string option"
  timeout :: "int option"
  maxRetries :: "int option"
  defaultHeaders :: "(string \<times> string) list option"

definition DEFAULT_OPENAI_CONFIG :: partial_config where
  "DEFAULT_OPENAI_CONFIG =
     \<lparr>p_apiKey = None, p_organization = None,
      p_baseURL = Some ''https://api.openai.com/v1'',
      p_timeout = Some 60000, p_maxRetries = Some 3,
      p_defaultHeaders = Some [(''OpenAI-Beta'', ''assistants=v2'')]\<rparr>"

definition over :: "'a option \<Rightarrow> 'a option \<Rightarrow> 'a option" where
  "over given dflt = (case given of Some x \<Rightarrow> Some x | None \<Rightarrow> dflt)"

definition isValidApiKey :: "string \<Rightarrow> bool" where
  "isValidApiKey k = (take 3 k = ''sk-'' \<and> length k > 20)"

definition validateAndMergeConfig :: "partial_config \<Rightarrow> openai_error + OpenAIProviderConfig" where
  "validateAndMergeConfig cfg =
     (if \<not> truthy_str (p_apiKey cfg)
        then Inl (new_OpenAIConfigurationError ''API Key de OpenAI es requerida'' Undefined)
      else if \<not> isValidApiKey (the (p_apiKey cfg))
        then Inl (new_OpenAIConfigurationError
                   (''Formato de API Key de OpenAI inv'' @ a_acute @ ''lido. Debe empezar con '' @
                    [CHR 0x27] @ ''sk-'' @ [CHR 0x27]) Undefined)
      else Inr
        \<lparr>apiKey = the (p_apiKey cfg),
         organization = over (p_organization cfg) (p_organization DEFAULT_OPENAI_CONFIG),
         baseURL = over (p_baseURL cfg) (p_baseURL DEFAULT_OPENAI_CONFIG),
         timeout = over (p_timeout cfg) (p_timeout DEFAULT_OPENAI_CONFIG),
         maxRetries = over (p_maxRetries cfg) (p_maxRetries DEFAULT_OPENAI_CONFIG),
         defaultHeaders = over (p_defaultHeaders cfg) (p_defaultHeaders DEFAULT_OPENAI_CONFIG)\<rparr>)"

text \<open>The manager object: its only field is the validated configuration.\<close>

record OpenAIConfigManager =
  config :: OpenAIProviderConfig

definition new_OpenAIConfigManager :: "partial_config \<Rightarrow> openai_error + OpenAIConfigManager" where
  "new_OpenAIConfigManager cfg =
     (case validateAndMergeConfig cfg of
        Inl err \<Rightarrow> Inl err
      | Inr c \<Rightarrow> Inr \<lparr>config = c\<rparr>)"

text \<open>
  \<open>updateConfig\<close> validates the spread \<open>{...this.config, ...updates}\<close> and stores the
  result; when validation throws, the stored configuration stays as it was (\<open>Inl\<close>).
\<close>

definition updateConfig ::
  "OpenAIConfigManager \<Rightarrow> partial_config \<Rightarrow> openai_error + OpenAIConfigManager"
where
  "updateConfig m updates =
     (case validateAndMergeConfig
             \<lparr>p_apiKey = over (p_apiKey updates) (Some (apiKey (config m))),
              p_organization = over (p_organization updates) (organization (config m)),
              p_baseURL = over (p_baseURL updates) (baseURL (config m)),
              p_timeout = over (p_timeout updates) (timeout (config m)),
              p_maxRetries = over (p_maxRetries updates) (maxRetries (config m)),
              p_defaultHeaders = over (p_defaultHeaders updates) (defaultHeaders (config m))\<rparr> of
        Inl err \<Rightarrow> Inl err
      | Inr c \<Rightarrow> Inr \<lparr>config = c\<rparr>)"

text \<open>
  The managers the code can build: \<open>config\<close> is private, the constructor is the only way
  to make a manager and \<open>updateConfig\<close> the only way to change one.
\<close>

inductive constructible :: "OpenAIConfigManager \<Rightarrow> bool" where
  built: "new_OpenAIConfigManager cfg = Inr m \<Longrightarrow> constructible m"
| updated: "constructible m \<Longrightarrow> updateConfig m updates = Inr m' \<Longrightarrow> constructible m'"

text \<open>
  \<open>key.substring(0, 7)\<close> is \<open>take 7\<close> and \<open>key.substring(key.length - 4)\<close> is
  \<open>drop (length key - 4)\<close>; on that branch the length exceeds 10. Credentials are ASCII,
  so bytes and JavaScript's string units coincide.
\<close>

definition getMaskedApiKey :: "OpenAIConfigManager \<Rightarrow> string" where
  "getMaskedApiKey m =
     (let key = apiKey (config m) in
      if length key \<le> 10 then ''***''
      else take 7 key @ ''...'' @ drop (length key - 4) key)"

section \<open>The provider and its registry (OpenAIProvider.ts, ProviderFactory.ts)\<close>

text \<open>
  The enum has the single member \<open>OPENAI = "openai"\<close>; \<open>OTHER t\<close> stands for any other
  value a caller passes at run time, which reaches the \<open>default\<close> branch of the switch.
\<close>

datatype AIProviderType = OPENAI | OTHER string

fun type_text :: "AIProviderType \<Rightarrow> string" where
  "type_text OPENAI = ''openai''"
| "type_text (OTHER t) = t"

text \<open>
  A provider object. \<open>oid\<close> is its identity: two references are the same object exactly
  when the \<open>oid\<close>s agree, and every constructor call takes a fresh one.
\<close>

record provider =
  oid :: nat
  providerName :: string
  isInitialized :: bool
  configManager :: OpenAIConfigManager

definition isReady :: "provider \<Rightarrow> bool" where
  "isReady p = isInitialized p"

record log_entry =
  level :: string
  log_message :: string
  log_data :: "(string \<times> string) list"

text \<open>
  The static state of the two classes: the registry map of \<open>ProviderFactory\<close>, the
  static field \<open>instance\<close> of \<open>OpenAIProvider\<close> (\<open>instance_slot\<close>), the number of \<open>OpenAIProvider\<close> constructor calls
  so far, and the log lines emitted. The module constant \<open>openaiConfig\<close> (read from the
  environment when the process starts) is the parameter \<open>env\<close>.
\<close>

record factory_state =
  providers :: "AIProviderType \<rightharpoonup> provider"
  instance_slot :: "provider option"
  constructed :: nat
  logged :: "log_entry list"

record openaiConfig =
  OPENAI_API_KEY :: "string option"
  OPENAI_ORGANIZATION :: "string option"

definition emit :: "string \<Rightarrow> string \<Rightarrow> (string \<times> string) list \<Rightarrow> factory_state \<Rightarrow> factory_state" where
  "emit lv msg dat s = s\<lparr>logged := logged s @ [\<lparr>level = lv, log_message = msg, log_data = dat\<rparr>]\<rparr>"

definition initial_state :: factory_state where
  "initial_state = \<lparr>providers = Map.empty, instance_slot = None, constructed = 0, logged = []\<rparr>"

text \<open>
  The private constructor: build the configuration manager, then \<open>initializeSync\<close>
  (create the vendor client, set \<open>isInitialized\<close>, log the masked credential). A
  configuration error is logged and thrown again. The vendor client's own constructor
  is outside this repository and is taken to succeed on a validated configuration.
\<close>

definition new_OpenAIProvider ::
  "partial_config \<Rightarrow> factory_state \<Rightarrow> (openai_error + provider) \<times> factory_state"
where
  "new_OpenAIProvider cfg s =
     (let s1 = s\<lparr>constructed := Suc (constructed s)\<rparr> in
      case new_OpenAIConfigManager cfg of
        Inl err \<Rightarrow>
          (Inl err,
           emit ''error'' ''Error al configurar OpenAI Provider''
             [(''provider'', ''OpenAI''), (''error'', err_message err)] s1)
      | Inr m \<Rightarrow>
          (Inr \<lparr>oid = constructed s, providerName = ''OpenAI'', isInitialized = True,
                configManager = m\<rparr>,
           emit ''info'' ''OpenAI Provider inicializado correctamente''
             [(''provider'', ''OpenAI''), (''apiKey'', getMaskedApiKey m),
              (''organization'', or_str_default (organization (config m)) ''default''),
              (''baseURL'', or_str_default (baseURL (config m)) [])] s1))"

definition getInstance ::
  "partial_config option \<Rightarrow> factory_state \<Rightarrow> (openai_error + provider) \<times> factory_state"
where
  "getInstance cfg s =
     (case instance_slot s of
        Some p \<Rightarrow> (Inr p, s)
      | None \<Rightarrow>
          (case cfg of
             None \<Rightarrow>
               (Inl (new_OpenAIConfigurationError
                      (''Se requiere configuraci'' @ o_acute @ ''n para inicializar OpenAI Provider'')
                      Undefined), s)
           | Some c \<Rightarrow>
               (case new_OpenAIProvider c s of
                  (Inl err, s1) \<Rightarrow> (Inl err, s1)
                | (Inr p, s1) \<Rightarrow> (Inr p, s1\<lparr>instance_slot := Some p\<rparr>))))"

definition resetInstance :: "factory_state \<Rightarrow> factory_state" where
  "resetInstance s = s\<lparr>instance_slot := None\<rparr>"

text \<open>\<open>createOpenAIProvider\<close>: no credential, no provider; a constructor error is caught.\<close>

definition createOpenAIProvider ::
  "openaiConfig \<Rightarrow> factory_state \<Rightarrow> (openai_error + provider option) \<times> factory_state"
where
  "createOpenAIProvider env s =
     (if \<not> truthy_str (OPENAI_API_KEY env) then
        (Inr None,
         emit ''warn''
           (''OpenAI API Key no configurada. El proveedor OpenAI no estar'' @ a_acute @
            '' disponible.'') [] s)
      else
        (case getInstance
                (Some \<lparr>p_apiKey = OPENAI_API_KEY env, p_organization = OPENAI_ORGANIZATION env,
                       p_baseURL = None, p_timeout = None, p_maxRetries = None,
                       p_defaultHeaders = None\<rparr>) s of
           (Inl err, s1) \<Rightarrow>
             (Inr None,
              emit ''error'' ''Error al inicializar OpenAI Provider''
                [(''error'', err_message err)] s1)
         | (Inr p, s1) \<Rightarrow> (Inr (Some p), s1)))"

text \<open>
  \<open>getProvider\<close>: the registered instance when there is one; otherwise construction by
  type inside a \<open>try\<close> whose \<open>catch\<close> logs and returns \<open>null\<close>. \<open>Inl\<close> in the result would
  be an exception reaching the caller, \<open>Inr None\<close> is \<open>null\<close>.
\<close>

definition getProvider ::
  "openaiConfig \<Rightarrow> AIProviderType \<Rightarrow> factory_state \<Rightarrow>
     (openai_error + provider option) \<times> factory_state"
where
  "getProvider env ty s =
     (case providers s ty of
        Some p \<Rightarrow> (Inr (Some p), s)
      | None \<Rightarrow>
          (case ty of
             OPENAI \<Rightarrow>
               (case createOpenAIProvider env s of
                  (Inl err, s1) \<Rightarrow>
                    (Inr None,
                     emit ''error'' (''Error al crear proveedor '' @ type_text ty)
                       [(''error'', err_message err)] s1)
                | (Inr None, s1) \<Rightarrow> (Inr None, s1)
                | (Inr (Some p), s1) \<Rightarrow>
                    if isReady p then
                      (Inr (Some p),
                       emit ''info''
                         (''Proveedor '' @ type_text ty @ '' creado y registrado exitosamente'') []
                         (s1\<lparr>providers := (providers s1)(ty \<mapsto> p)\<rparr>))
                    else (Inr None, s1))
           | OTHER t \<Rightarrow>
               (Inr None,
                emit ''error'' (''Tipo de proveedor no soportado: '' @ type_text ty) [] s)))"

definition resetAll :: "factory_state \<Rightarrow> factory_state" where
  "resetAll s =
     emit ''info'' ''Todos los proveedores han sido reseteados'' []
       (resetInstance (s\<lparr>providers := Map.empty\<rparr>))"

text \<open>
  The states a process reaches from start-up through the registry's operations, the
  configuration being fixed for the life of the process. \<open>isProviderAvailable\<close>,
  \<open>getDefaultProvider\<close> and \<open>getAvailableProviders\<close> change the state only through
  \<open>getProvider\<close>, and \<open>getProvidersInfo\<close> only reads it.
\<close>

inductive reachable :: "openaiConfig \<Rightarrow> factory_state \<Rightarrow> bool" for env :: openaiConfig where
  start: "reachable env initial_state"
| get: "reachable env s \<Longrightarrow> reachable env (snd (getProvider env ty s))"
| reset: "reachable env s \<Longrightarrow> reachable env (resetAll s)"

text \<open>The credential is present and well formed.\<close>

definition credential_ok :: "openaiConfig \<Rightarrow> bool" where
  "credential_ok env =
     (truthy_str (OPENAI_API_KEY env) \<and> isValidApiKey (the (OPENAI_API_KEY env)))"

section \<open>Properties of the classifier\<close>

lemmas ctor_defs = new_OpenAIError_def new_OpenAIAuthenticationError_def
  new_OpenAIRateLimitError_def new_OpenAIQuotaError_def new_OpenAINotFoundError_def
  new_OpenAIValidationError_def new_OpenAITimeoutError_def new_OpenAIServerError_def
  new_OpenAIConfigurationError_def

lemma map_by_tag:
  "errorType e = Some ''invalid_api_key'' \<or> errorType e = Some ''authentication_error'' \<Longrightarrow>
     mapOpenAIError e = new_OpenAIAuthenticationError (errorMessage e) e"
  "errorType e = Some ''rate_limit_exceeded'' \<Longrightarrow>
     mapOpenAIError e = new_OpenAIRateLimitError (errorMessage e) e"
  "errorType e = Some ''insufficient_quota'' \<Longrightarrow>
     mapOpenAIError e = new_OpenAIQuotaError (errorMessage e) e"
  "errorType e = Some ''invalid_request_error'' \<Longrightarrow>
     mapOpenAIError e = new_OpenAIValidationError (errorMessage e) e"
  "errorType e = Some ''not_found'' \<Longrightarrow>
     mapOpenAIError e = new_OpenAINotFoundError (errorMessage e) e"
  by (auto simp: mapOpenAIError_def Let_def)

lemma map_unrecognized:
  "\<not> recognized_tag (errorType e) \<Longrightarrow>
     mapOpenAIError e =
       (case (if truthy_num (rawStatusCode e)
              then mapByStatusCode (the (rawStatusCode e)) (errorMessage e) e else None) of
          Some r \<Rightarrow> r
        | None \<Rightarrow> new_OpenAIError (errorMessage e)
            (or_str_default (errorType e) ''unknown_error'')
            (or_num_default (rawStatusCode e) 500) e)"
  by (simp add: mapOpenAIError_def Let_def recognized_tag_def)

lemma map_by_status:
  assumes "\<not> recognized_tag (errorType e)" and "rawStatusCode e = Some c"
  shows "c = 401 \<Longrightarrow> name (mapOpenAIError e) = OpenAIAuthenticationError"
    and "c = 404 \<Longrightarrow> name (mapOpenAIError e) = OpenAINotFoundError"
    and "c = 429 \<Longrightarrow> name (mapOpenAIError e) = OpenAIRateLimitError"
    and "c = 408 \<Longrightarrow> name (mapOpenAIError e) = OpenAITimeoutError"
    and "400 \<le> c \<Longrightarrow> c < 500 \<Longrightarrow> c \<notin> {401, 404, 429, 408} \<Longrightarrow>
           name (mapOpenAIError e) = OpenAIValidationError"
    and "500 \<le> c \<Longrightarrow> name (mapOpenAIError e) = OpenAIServerError"
  using assms
  by (simp_all add: map_unrecognized truthy_num_def mapByStatusCode_def ctor_defs)

lemma map_generic:
  assumes "\<not> recognized_tag (errorType e)" and "\<not> truthy_num (rawStatusCode e)"
  shows "mapOpenAIError e =
           new_OpenAIError (errorMessage e) (or_str_default (errorType e) ''unknown_error'') 500 e"
  using assms
  by (auto simp: map_unrecognized or_num_default_def truthy_num_def split: option.splits)

text \<open>
  C1, as stated, ends with: every raw error carrying status 401 is classified as
  Authentication. The vendor's own 401 response for a bad key carries the type tag
  \<open>invalid_request_error\<close>; the tag is matched first, so the result is a Validation error.
\<close>

theorem status_401_not_always_authentication:
  "rawStatusCode (Thrown \<lparr>message = Some ''Incorrect API key provided'',
          type = Some ''invalid_request_error'', status = Some 401, statusCode = None,
          error = None\<rparr>) = Some 401 \<and>
   name (mapOpenAIError (Thrown \<lparr>message = Some ''Incorrect API key provided'',
          type = Some ''invalid_request_error'', status = Some 401, statusCode = None,
          error = None\<rparr>)) = OpenAIValidationError \<and>
   name (mapOpenAIError (Thrown \<lparr>message = Some ''Incorrect API key provided'',
          type = Some ''invalid_request_error'', status = Some 401, statusCode = None,
          error = None\<rparr>)) \<noteq> OpenAIAuthenticationError"
  by (simp add: rawStatusCode_def or_num_def truthy_num_def opt_status_def opt_statusCode_def
      mapOpenAIError_def Let_def errorType_def or_str_def truthy_str_def opt_type_def
      opt_error_type_def ctor_defs)

text \<open>
  C1 (amended): \<open>mapOpenAIError\<close> applies an ordered rule, first match wins. The tags
  \<open>invalid_api_key\<close> and \<open>authentication_error\<close> give Authentication with status 401,
  \<open>rate_limit_exceeded\<close> gives RateLimit 429, \<open>insufficient_quota\<close> gives Quota 429,
  \<open>invalid_request_error\<close> gives Validation 400, \<open>not_found\<close> gives NotFound 404. With no
  recognised tag the status decides: 401 Authentication, 404 NotFound, 429 RateLimit,
  408 Timeout, any other status from 400 to 499 Validation, 500 and above Server; with
  no recognised tag and no status the result is the generic error with status 500, of
  type \<open>unknown_error\<close> when there is no tag at all. A raw error carrying status 401 is
  classified as Authentication when its tag is not one of the four recognised tags of
  another kind.
\<close>

theorem mapOpenAIError_ordered_rule:
  "(errorType e = Some ''invalid_api_key'' \<or> errorType e = Some ''authentication_error'' \<longrightarrow>
      name (mapOpenAIError e) = OpenAIAuthenticationError \<and>
      err_statusCode (mapOpenAIError e) = 401) \<and>
   (errorType e = Some ''rate_limit_exceeded'' \<longrightarrow>
      name (mapOpenAIError e) = OpenAIRateLimitError \<and> err_statusCode (mapOpenAIError e) = 429) \<and>
   (errorType e = Some ''insufficient_quota'' \<longrightarrow>
      name (mapOpenAIError e) = OpenAIQuotaError \<and> err_statusCode (mapOpenAIError e) = 429) \<and>
   (errorType e = Some ''invalid_request_error'' \<longrightarrow>
      name (mapOpenAIError e) = OpenAIValidationError \<and> err_statusCode (mapOpenAIError e) = 400) \<and>
   (errorType e = Some ''not_found'' \<longrightarrow>
      name (mapOpenAIError e) = OpenAINotFoundError \<and> err_statusCode (mapOpenAIError e) = 404) \<and>
   (\<not> recognized_tag (errorType e) \<longrightarrow>
      (rawStatusCode e = Some 401 \<longrightarrow> name (mapOpenAIError e) = OpenAIAuthenticationError) \<and>
      (rawStatusCode e = Some 404 \<longrightarrow> name (mapOpenAIError e) = OpenAINotFoundError) \<and>
      (rawStatusCode e = Some 429 \<longrightarrow> name (mapOpenAIError e) = OpenAIRateLimitError) \<and>
      (rawStatusCode e = Some 408 \<longrightarrow> name (mapOpenAIError e) = OpenAITimeoutError) \<and>
      (\<forall>c. rawStatusCode e = Some c \<and> 400 \<le> c \<and> c < 500 \<and> c \<notin> {401, 404, 429, 408} \<longrightarrow>
           name (mapOpenAIError e) = OpenAIValidationError) \<and>
      (\<forall>c. rawStatusCode e = Some c \<and> 500 \<le> c \<longrightarrow>
           name (mapOpenAIError e) = OpenAIServerError) \<and>
      (\<not> truthy_num (rawStatusCode e) \<longrightarrow>
           name (mapOpenAIError e) = OpenAIError \<and> err_statusCode (mapOpenAIError e) = 500 \<and>
           (\<not> truthy_str (errorType e) \<longrightarrow> err_type (mapOpenAIError e) = ''unknown_error''))) \<and>
   (rawStatusCode e = Some 401 \<and>
    errorType e \<notin> {Some ''rate_limit_exceeded'', Some ''insufficient_quota'',
                    Some ''invalid_request_error'', Some ''not_found''} \<longrightarrow>
      name (mapOpenAIError e) = OpenAIAuthenticationError)"
proof -
  have tags:
    "errorType e = Some ''invalid_api_key'' \<or> errorType e = Some ''authentication_error'' \<longrightarrow>
      name (mapOpenAIError e) = OpenAIAuthenticationError \<and>
      err_statusCode (mapOpenAIError e) = 401"
    "errorType e = Some ''rate_limit_exceeded'' \<longrightarrow>
      name (mapOpenAIError e) = OpenAIRateLimitError \<and> err_statusCode (mapOpenAIError e) = 429"
    "errorType e = Some ''insufficient_quota'' \<longrightarrow>
      name (mapOpenAIError e) = OpenAIQuotaError \<and> err_statusCode (mapOpenAIError e) = 429"
    "errorType e = Some ''invalid_request_error'' \<longrightarrow>
      name (mapOpenAIError e) = OpenAIValidationError \<and> err_statusCode (mapOpenAIError e) = 400"
    "errorType e = Some ''not_found'' \<longrightarrow>
      name (mapOpenAIError e) = OpenAINotFoundError \<and> err_statusCode (mapOpenAIError e) = 404"
    by (simp_all add: map_by_tag ctor_defs)
  have generic: "\<not> recognized_tag (errorType e) \<Longrightarrow> \<not> truthy_num (rawStatusCode e) \<Longrightarrow>
      name (mapOpenAIError e) = OpenAIError \<and> err_statusCode (mapOpenAIError e) = 500 \<and>
      (\<not> truthy_str (errorType e) \<longrightarrow> err_type (mapOpenAIError e) = ''unknown_error'')"
    by (auto simp: map_generic new_OpenAIError_def or_str_default_def truthy_str_def
        split: option.splits)
  have last: "name (mapOpenAIError e) = OpenAIAuthenticationError"
    if st401: "rawStatusCode e = Some 401"
      and ty: "errorType e \<notin> {Some ''rate_limit_exceeded'', Some ''insufficient_quota'',
                    Some ''invalid_request_error'', Some ''not_found''}"
  proof (cases "recognized_tag (errorType e)")
    case True
    with ty have "errorType e = Some ''invalid_api_key'' \<or> errorType e = Some ''authentication_error''"
      by (auto simp: recognized_tag_def)
    with tags(1) show ?thesis by blast
  next
    case False
    then show ?thesis using st401 by (rule map_by_status(1)) simp
  qed
  have st: "\<not> recognized_tag (errorType e) \<longrightarrow>
      (rawStatusCode e = Some 401 \<longrightarrow> name (mapOpenAIError e) = OpenAIAuthenticationError) \<and>
      (rawStatusCode e = Some 404 \<longrightarrow> name (mapOpenAIError e) = OpenAINotFoundError) \<and>
      (rawStatusCode e = Some 429 \<longrightarrow> name (mapOpenAIError e) = OpenAIRateLimitError) \<and>
      (rawStatusCode e = Some 408 \<longrightarrow> name (mapOpenAIError e) = OpenAITimeoutError) \<and>
      (\<forall>c. rawStatusCode e = Some c \<and> 400 \<le> c \<and> c < 500 \<and> c \<notin> {401, 404, 429, 408} \<longrightarrow>
           name (mapOpenAIError e) = OpenAIValidationError) \<and>
      (\<forall>c. rawStatusCode e = Some c \<and> 500 \<le> c \<longrightarrow>
           name (mapOpenAIError e) = OpenAIServerError) \<and>
      (\<not> truthy_num (rawStatusCode e) \<longrightarrow>
           name (mapOpenAIError e) = OpenAIError \<and> err_statusCode (mapOpenAIError e) = 500 \<and>
           (\<not> truthy_str (errorType e) \<longrightarrow> err_type (mapOpenAIError e) = ''unknown_error''))"
  proof (intro impI conjI allI)
    assume u: "\<not> recognized_tag (errorType e)"
    show "name (mapOpenAIError e) = OpenAIAuthenticationError" if "rawStatusCode e = Some 401"
      using u that by (rule map_by_status(1)) simp
    show "name (mapOpenAIError e) = OpenAINotFoundError" if "rawStatusCode e = Some 404"
      using u that by (rule map_by_status(2)) simp
    show "name (mapOpenAIError e) = OpenAIRateLimitError" if "rawStatusCode e = Some 429"
      using u that by (rule map_by_status(3)) simp
    show "name (mapOpenAIError e) = OpenAITimeoutError" if "rawStatusCode e = Some 408"
      using u that by (rule map_by_status(4)) simp
    show "name (mapOpenAIError e) = OpenAIValidationError"
      if "rawStatusCode e = Some c \<and> 400 \<le> c \<and> c < 500 \<and> c \<notin> {401, 404, 429, 408}" for c
      using that map_by_status(5) [OF u, of c] by blast
    show "name (mapOpenAIError e) = OpenAIServerError"
      if "rawStatusCode e = Some c \<and> 500 \<le> c" for c
      using that map_by_status(6) [OF u, of c] by blast
    show "name (mapOpenAIError e) = OpenAIError" if "\<not> truthy_num (rawStatusCode e)"
      using generic [OF u that] by (rule conjunct1)
    show "err_statusCode (mapOpenAIError e) = 500" if "\<not> truthy_num (rawStatusCode e)"
      using generic [OF u that] by blast
    show "err_type (mapOpenAIError e) = ''unknown_error''"
      if "\<not> truthy_num (rawStatusCode e)" and "\<not> truthy_str (errorType e)"
      using generic [OF u that(1)] that(2) by blast
  qed
  have last': "rawStatusCode e = Some 401 \<and>
    errorType e \<notin> {Some ''rate_limit_exceeded'', Some ''insufficient_quota'',
                    Some ''invalid_request_error'', Some ''not_found''} \<longrightarrow>
      name (mapOpenAIError e) = OpenAIAuthenticationError"
    using last by blast
  show ?thesis
    by (intro conjI) (rule tags st last')+
qed

theorem mapOpenAIError_ordered_rule_witness:
  "rawStatusCode (Thrown \<lparr>message = Some ''Unauthorized'', type = None, status = Some 401,
       statusCode = None, error = None\<rparr>) = Some 401 \<and>
   errorType (Thrown \<lparr>message = Some ''Unauthorized'', type = None, status = Some 401,
       statusCode = None, error = None\<rparr>) = None \<and>
   name (mapOpenAIError (Thrown \<lparr>message = Some ''Unauthorized'', type = None, status = Some 401,
       statusCode = None, error = None\<rparr>)) = OpenAIAuthenticationError \<and>
   errorType (Thrown \<lparr>message = None, type = None, status = Some 429, statusCode = None,
       error = Some \<lparr>inner_message = Some ''No credit'', inner_type = Some ''insufficient_quota''\<rparr>\<rparr>)
     = Some ''insufficient_quota'' \<and>
   name (mapOpenAIError (Thrown \<lparr>message = None, type = None, status = Some 429, statusCode = None,
       error = Some \<lparr>inner_message = Some ''No credit'', inner_type = Some ''insufficient_quota''\<rparr>\<rparr>))
     = OpenAIQuotaError \<and>
   \<not> recognized_tag (errorType Undefined) \<and> \<not> truthy_num (rawStatusCode Undefined) \<and>
   name (mapOpenAIError Undefined) = OpenAIError \<and>
   err_statusCode (mapOpenAIError Undefined) = 500"
proof -
  let ?A = "Thrown \<lparr>message = Some ''Unauthorized'', type = None, status = Some 401,
       statusCode = None, error = None\<rparr>"
  let ?Q = "Thrown \<lparr>message = None, type = None, status = Some 429, statusCode = None,
       error = Some \<lparr>inner_message = Some ''No credit'', inner_type = Some ''insufficient_quota''\<rparr>\<rparr>"
  have a: "rawStatusCode ?A = Some 401"
    by (simp add: rawStatusCode_def or_num_def truthy_num_def opt_status_def)
  have b: "errorType ?A = None"
    by (simp add: errorType_def or_str_def truthy_str_def opt_type_def opt_error_type_def)
  have c: "errorType ?Q = Some ''insufficient_quota''"
    by (simp add: errorType_def or_str_def truthy_str_def opt_type_def opt_error_type_def)
  have d: "\<not> recognized_tag (errorType Undefined)" "\<not> truthy_num (rawStatusCode Undefined)"
    by (simp_all add: errorType_def or_str_def truthy_str_def opt_type_def opt_error_type_def
        recognized_tag_def rawStatusCode_def or_num_def truthy_num_def opt_status_def
        opt_statusCode_def)
  have h: "rawStatusCode ?A = Some 401 \<and>
      errorType ?A \<notin> {Some ''rate_limit_exceeded'', Some ''insufficient_quota'',
                    Some ''invalid_request_error'', Some ''not_found''}"
    by (simp add: a b)
  have r1: "name (mapOpenAIError ?A) = OpenAIAuthenticationError"
    by (rule mapOpenAIError_ordered_rule [of ?A, THEN conjunct2, THEN conjunct2, THEN conjunct2,
          THEN conjunct2, THEN conjunct2, THEN conjunct2, THEN mp]) (rule h)
  have r2: "name (mapOpenAIError ?Q) = OpenAIQuotaError"
    by (rule mapOpenAIError_ordered_rule [of ?Q, THEN conjunct2, THEN conjunct2, THEN conjunct1,
          THEN mp, THEN conjunct1]) (rule c)
  have r3: "name (mapOpenAIError Undefined) = OpenAIError \<and>
            err_statusCode (mapOpenAIError Undefined) = 500 \<and>
            (\<not> truthy_str (errorType Undefined) \<longrightarrow>
               err_type (mapOpenAIError Undefined) = ''unknown_error'')"
    by (rule mapOpenAIError_ordered_rule [of Undefined, THEN conjunct2, THEN conjunct2,
          THEN conjunct2, THEN conjunct2, THEN conjunct2, THEN conjunct1, THEN mp,
          THEN conjunct2, THEN conjunct2, THEN conjunct2, THEN conjunct2, THEN conjunct2,
          THEN conjunct2, THEN mp]) (rule d)+
  show ?thesis
    by (intro conjI a b c d r1 r2 r3 [THEN conjunct1] r3 [THEN conjunct2, THEN conjunct1])
qed

section \<open>Properties of the retry executor\<close>

lemma retry_loop_past_end:
  "\<not> int a \<le> n \<Longrightarrow>
     retry_loop operation n d a lastErr calls slept =
       \<lparr>outcome = Inl lastErr, invocations = calls, sleeps = slept\<rparr>"
  by (subst retry_loop.simps) simp

lemma retry_loop_client_error:
  "int a \<le> n \<Longrightarrow> operation a = Inl err \<Longrightarrow> is_client_error err \<Longrightarrow>
     retry_loop operation n d a lastErr calls slept =
       \<lparr>outcome = Inl (Thrown err), invocations = Suc calls, sleeps = slept\<rparr>"
  by (subst retry_loop.simps) simp

lemma retry_loop_retry:
  "int a < n \<Longrightarrow> operation a = Inl err \<Longrightarrow> \<not> is_client_error err \<Longrightarrow>
     retry_loop operation n d a lastErr calls slept =
       retry_loop operation n d (Suc a) (Thrown err) (Suc calls) (slept @ [d * int a])"
  by (subst retry_loop.simps) simp

lemma retry_loop_last:
  "int a = n \<Longrightarrow> operation a = Inl err \<Longrightarrow> \<not> is_client_error err \<Longrightarrow>
     retry_loop operation n d a lastErr calls slept =
       \<lparr>outcome = Inl (Thrown err), invocations = Suc calls, sleeps = slept\<rparr>"
  by (subst retry_loop.simps) (simp add: retry_loop_past_end)

lemma retry_loop_success:
  "int a \<le> n \<Longrightarrow> operation a = Inr v \<Longrightarrow>
     retry_loop operation n d a lastErr calls slept =
       \<lparr>outcome = Inr v, invocations = Suc calls, sleeps = slept\<rparr>"
  by (subst retry_loop.simps) simp

lemma retry_loop_all_fail:
  assumes "\<forall>k. a \<le> k \<and> int k \<le> n \<longrightarrow> (\<exists>err. operation k = Inl err \<and> \<not> is_client_error err)"
    and "int a \<le> n"
  shows "\<exists>err. operation (nat n) = Inl err \<and>
           retry_loop operation n d a lastErr calls slept =
             \<lparr>outcome = Inl (Thrown err), invocations = calls + (nat n - a) + 1,
              sleeps = slept @ map (\<lambda>k. d * int k) [a..<nat n]\<rparr>"
  using assms
proof (induction "nat n - a" arbitrary: a lastErr calls slept)
  case 0
  then have an: "int a = n" by linarith
  from 0 obtain err where e: "operation a = Inl err" "\<not> is_client_error err"
    by (metis order_refl)
  from an have "nat n = a" by simp
  with an e show ?case
    by (simp add: retry_loop_last)
next
  case (Suc m)
  then have lt: "int a < n" by linarith
  from Suc.prems obtain err where e: "operation a = Inl err" "\<not> is_client_error err"
    by (metis order_refl)
  have step: "retry_loop operation n d a lastErr calls slept =
       retry_loop operation n d (Suc a) (Thrown err) (Suc calls) (slept @ [d * int a])"
    using lt e by (rule retry_loop_retry)
  have m: "m = nat n - Suc a" using Suc.hyps(2) by linarith
  have all: "\<forall>k. Suc a \<le> k \<and> int k \<le> n \<longrightarrow> (\<exists>err. operation k = Inl err \<and> \<not> is_client_error err)"
    using Suc.prems(1) by (metis Suc_leD)
  have le: "int (Suc a) \<le> n" using lt by linarith
  from Suc.hyps(1) [OF m all le, of "Thrown err" "Suc calls" "slept @ [d * int a]"]
  obtain err' where e': "operation (nat n) = Inl err'"
    and r: "retry_loop operation n d (Suc a) (Thrown err) (Suc calls) (slept @ [d * int a]) =
             \<lparr>outcome = Inl (Thrown err'), invocations = Suc calls + (nat n - Suc a) + 1,
              sleeps = (slept @ [d * int a]) @ map (\<lambda>k. d * int k) [Suc a..<nat n]\<rparr>"
    by blast
  have an: "a < nat n" using lt by linarith
  have "[a..<nat n] = a # [Suc a..<nat n]" using an by (simp add: upt_conv_Cons)
  with e' r step an show ?case by simp
qed

lemma server_status_not_client_error:
  "500 \<le> c \<Longrightarrow> statusCode err = Some c \<or> (statusCode err = None \<and> status err = Some c) \<Longrightarrow>
     \<not> is_client_error err"
  by (auto simp: is_client_error_def truthy_num_def)

text \<open>
  C2: when every invocation of the operation fails with an error whose status is 500 or
  above, \<open>retryOperation(op, 3, 1000)\<close> invokes the operation exactly 3 times, sleeps
  1000 before attempt 2 and 2000 before attempt 3 (the delay is \<open>delayMs * attempt\<close>),
  and raises the last error observed. The first conjunct is the same fact for any number
  of attempts and any base delay.
\<close>

theorem retryOperation_all_attempts_fail:
  "(1 \<le> n \<and>
    (\<forall>k. 1 \<le> k \<and> int k \<le> n \<longrightarrow>
       (\<exists>err c. operation k = Inl err \<and> 500 \<le> c \<and>
          (statusCode err = Some c \<or> (statusCode err = None \<and> status err = Some c)))) \<longrightarrow>
    invocations (retryOperation operation n d) = nat n \<and>
    sleeps (retryOperation operation n d) = map (\<lambda>k. d * int k) [1..<nat n] \<and>
    (\<exists>err. operation (nat n) = Inl err \<and>
       outcome (retryOperation operation n d) = Inl (Thrown err))) \<and>
   ((\<forall>k. 1 \<le> k \<and> k \<le> 3 \<longrightarrow>
       (\<exists>err c. operation k = Inl err \<and> 500 \<le> c \<and>
          (statusCode err = Some c \<or> (statusCode err = None \<and> status err = Some c)))) \<longrightarrow>
    invocations (retryOperation operation 3 1000) = 3 \<and>
    sleeps (retryOperation operation 3 1000) = [1000, 2000] \<and>
    (\<exists>err. operation 3 = Inl err \<and>
       outcome (retryOperation operation 3 1000) = Inl (Thrown err)))"
proof -
  have general:
    "invocations (retryOperation operation m dl) = nat m \<and>
     sleeps (retryOperation operation m dl) = map (\<lambda>k. dl * int k) [1..<nat m] \<and>
     (\<exists>err. operation (nat m) = Inl err \<and>
        outcome (retryOperation operation m dl) = Inl (Thrown err))"
    if m: "1 \<le> m"
      and fail: "\<forall>k. 1 \<le> k \<and> int k \<le> m \<longrightarrow>
        (\<exists>err c. operation k = Inl err \<and> 500 \<le> c \<and>
           (statusCode err = Some c \<or> (statusCode err = None \<and> status err = Some c)))"
    for m dl
  proof -
    have nc: "\<forall>k. 1 \<le> k \<and> int k \<le> m \<longrightarrow> (\<exists>err. operation k = Inl err \<and> \<not> is_client_error err)"
      using fail server_status_not_client_error by blast
    have le: "int 1 \<le> m" using m by simp
    from retry_loop_all_fail [where operation = operation and a = 1 and n = m and d = dl
        and lastErr = Undefined and calls = 0 and slept = "[]", OF nc le]
    obtain err where e: "operation (nat m) = Inl err"
      and r: "retry_loop operation m dl 1 Undefined 0 [] =
             \<lparr>outcome = Inl (Thrown err), invocations = 0 + (nat m - 1) + 1,
              sleeps = [] @ map (\<lambda>k. dl * int k) [1..<nat m]\<rparr>"
      by blast
    have "0 + (nat m - 1) + 1 = nat m" using m by linarith
    with e r show ?thesis by (simp add: retryOperation_def)
  qed
  have three: "map (\<lambda>k. 1000 * int k) [1..<nat 3] = [1000, 2000]"
    by (simp add: upt_conv_Cons)
  have special:
    "invocations (retryOperation operation 3 1000) = 3 \<and>
     sleeps (retryOperation operation 3 1000) = [1000, 2000] \<and>
     (\<exists>err. operation 3 = Inl err \<and>
        outcome (retryOperation operation 3 1000) = Inl (Thrown err))"
    if fail: "\<forall>k. 1 \<le> k \<and> k \<le> 3 \<longrightarrow>
        (\<exists>err c. operation k = Inl err \<and> 500 \<le> c \<and>
           (statusCode err = Some c \<or> (statusCode err = None \<and> status err = Some c)))"
  proof -
    have "\<forall>k. 1 \<le> k \<and> int k \<le> 3 \<longrightarrow>
        (\<exists>err c. operation k = Inl err \<and> 500 \<le> c \<and>
           (statusCode err = Some c \<or> (statusCode err = None \<and> status err = Some c)))"
      using fail by simp
    from general [of 3 1000, OF _ this] three show ?thesis by simp
  qed
  show ?thesis
    using general [of n d] special by blast
qed

theorem retryOperation_all_attempts_fail_witness:
  "invocations (retryOperation
      (\<lambda>k. Inl \<lparr>message = Some ''Internal server error'', type = None, status = None,
                statusCode = Some 500, error = None\<rparr> :: raw_error + unit) 3 1000) = 3 \<and>
   sleeps (retryOperation
      (\<lambda>k. Inl \<lparr>message = Some ''Internal server error'', type = None, status = None,
                statusCode = Some 500, error = None\<rparr> :: raw_error + unit) 3 1000) = [1000, 2000] \<and>
   outcome (retryOperation
      (\<lambda>k. Inl \<lparr>message = Some ''Internal server error'', type = None, status = None,
                statusCode = Some 500, error = None\<rparr> :: raw_error + unit) 3 1000) =
     Inl (Thrown \<lparr>message = Some ''Internal server error'', type = None, status = None,
                statusCode = Some 500, error = None\<rparr>)"
proof -
  let ?op = "\<lambda>k::nat. Inl \<lparr>message = Some ''Internal server error'', type = None, status = None,
                statusCode = Some 500, error = None\<rparr> :: raw_error + unit"
  have h: "\<forall>k. 1 \<le> k \<and> k \<le> 3 \<longrightarrow>
       (\<exists>err c. ?op k = Inl err \<and> 500 \<le> c \<and>
          (statusCode err = Some c \<or> (statusCode err = None \<and> status err = Some c)))"
    by simp
  from retryOperation_all_attempts_fail [of 3 ?op 1000, THEN conjunct2, THEN mp, OF h]
  show ?thesis by simp
qed

text \<open>
  C10: for \<open>maxRetries\<close> below 1 the loop body never runs: the operation is not invoked,
  nothing is slept, and the rejection value is the unassigned \<open>lastError\<close>, \<open>undefined\<close>.
\<close>

theorem retryOperation_no_attempts:
  "n < 1 \<Longrightarrow>
     retryOperation operation n d = \<lparr>outcome = Inl Undefined, invocations = 0, sleeps = []\<rparr>"
  by (simp add: retryOperation_def retry_loop_past_end)

theorem retryOperation_no_attempts_witness:
  "(0::int) < 1 \<and>
   retryOperation (\<lambda>k. Inr True :: raw_error + bool) 0 1000 =
     \<lparr>outcome = Inl Undefined, invocations = 0, sleeps = []\<rparr>"
  using retryOperation_no_attempts [of 0 "\<lambda>k. Inr True :: raw_error + bool" 1000] by simp

text \<open>
  C3 says that an operation failing with a 400-equivalent error on its first attempt is
  invoked exactly once and the error is re-raised with no wait. The code does not do
  that for the errors of the vendor client, which carry the HTTP status in \<open>status\<close> and
  have no \<open>statusCode\<close>: the guard reads \<open>error.statusCode\<close> only, finds nothing, and the
  operation is invoked 3 times with sleeps of 1000 and 2000. The comment on the guard
  says that client errors (4xx) are not retried, and \<open>mapOpenAIError\<close> and \<open>handleError\<close>
  read \<open>status || statusCode\<close>; the classifier makes this error a Validation error with
  status 400.
\<close>

theorem retryOperation_retries_vendor_400:
  "invocations (retryOperation
      (\<lambda>k. Inl \<lparr>message = Some ''Bad request'', type = None, status = Some 400,
                statusCode = None, error = None\<rparr> :: raw_error + unit) 3 1000) = 3 \<and>
   sleeps (retryOperation
      (\<lambda>k. Inl \<lparr>message = Some ''Bad request'', type = None, status = Some 400,
                statusCode = None, error = None\<rparr> :: raw_error + unit) 3 1000) = [1000, 2000] \<and>
   outcome (retryOperation
      (\<lambda>k. Inl \<lparr>message = Some ''Bad request'', type = None, status = Some 400,
                statusCode = None, error = None\<rparr> :: raw_error + unit) 3 1000) =
     Inl (Thrown \<lparr>message = Some ''Bad request'', type = None, status = Some 400,
                statusCode = None, error = None\<rparr>) \<and>
   name (mapOpenAIError (Thrown \<lparr>message = Some ''Bad request'', type = None,
                status = Some 400, statusCode = None, error = None\<rparr>)) = OpenAIValidationError \<and>
   err_statusCode (mapOpenAIError (Thrown \<lparr>message = Some ''Bad request'', type = None,
                status = Some 400, statusCode = None, error = None\<rparr>)) = 400"
proof -
  let ?e = "\<lparr>message = Some ''Bad request'', type = None, status = Some 400,
                statusCode = None, error = None\<rparr>"
  let ?op = "\<lambda>k::nat. Inl ?e :: raw_error + unit"
  have nc: "\<forall>k. 1 \<le> k \<and> int k \<le> 3 \<longrightarrow> (\<exists>err. ?op k = Inl err \<and> \<not> is_client_error err)"
    by (simp add: is_client_error_def truthy_num_def)
  have le: "int 1 \<le> 3" by simp
  from retry_loop_all_fail [where operation = ?op and a = 1 and n = 3 and d = 1000
      and lastErr = Undefined and calls = 0 and slept = "[]", OF nc le]
  have r: "retry_loop ?op 3 1000 1 Undefined 0 [] =
      \<lparr>outcome = Inl (Thrown ?e), invocations = 0 + (nat 3 - 1) + 1,
       sleeps = [] @ map (\<lambda>k. 1000 * int k) [1..<nat 3]\<rparr>"
    by simp
  have three: "map (\<lambda>k. 1000 * int k) [1..<nat 3] = [1000, 2000]"
    by (simp add: upt_conv_Cons)
  have m: "mapOpenAIError (Thrown ?e) = new_OpenAIValidationError ''Bad request'' (Thrown ?e)"
    by (simp add: mapOpenAIError_def Let_def errorMessage_def errorType_def rawStatusCode_def
        or_str_def or_num_def truthy_str_def truthy_num_def opt_message_def opt_type_def
        opt_status_def opt_statusCode_def opt_error_message_def opt_error_type_def
        or_str_default_def mapByStatusCode_def)
  have run: "retryOperation ?op 3 1000 =
      \<lparr>outcome = Inl (Thrown ?e), invocations = 3, sleeps = [1000, 2000]\<rparr>"
    unfolding retryOperation_def using r three by simp
  show ?thesis
    by (simp add: run m new_OpenAIValidationError_def new_OpenAIError_def)
qed

section \<open>Properties of metadata sanitising\<close>

lemma map_of_obj_set: "map_of (obj_set ps k v) = (map_of ps)(k \<mapsto> v)"
  by (induction ps k v rule: obj_set.induct) auto

lemma map_of_assign:
  "map_of (assign obj k v) = (if k = ''__proto__'' then map_of obj else (map_of obj)(k \<mapsto> v))"
  by (simp add: assign_def map_of_obj_set)

lemma map_of_sanitize_loop:
  "distinct (map fst entries) \<Longrightarrow> k \<noteq> ''__proto__'' \<Longrightarrow>
     map_of (sanitize_loop stringify entries acc) k =
       (case map_of entries k of
          None \<Rightarrow> map_of acc k
        | Some v \<Rightarrow>
            (case sanitized_value stringify v of None \<Rightarrow> map_of acc k | Some w \<Rightarrow> Some w))"
proof (induction stringify entries acc rule: sanitize_loop.induct)
  case (1 stringify sanitized)
  then show ?case by simp
next
  case (2 stringify key val entries sanitized)
  then have d: "distinct (map fst entries)" and nk: "key \<notin> fst ` set entries" by simp_all
  from nk have none: "map_of entries key = None" by (simp add: map_of_eq_None_iff)
  show ?case
  proof (cases "is_scalar val")
    case True
    with 2 d none show ?thesis
      by (auto simp: map_of_assign sanitized_value_def split: option.splits)
  next
    case False
    show ?thesis
    proof (cases "val = JNull \<or> val = JUndefined")
      case True
      with False 2 d none show ?thesis
        by (auto simp: sanitized_value_def split: option.splits)
    next
      case nn: False
      with False 2 d none show ?thesis
        by (auto simp: map_of_assign sanitized_value_def split: option.splits)
    qed
  qed
qed

lemma sanitizeMetadata_lookup:
  assumes "distinct (map fst entries)" and "k \<noteq> ''__proto__''"
  shows "(case sanitizeMetadata stringify (Some entries) of None \<Rightarrow> None | Some s \<Rightarrow> map_of s k) =
           (case map_of entries k of None \<Rightarrow> None | Some v \<Rightarrow> sanitized_value stringify v)"
proof -
  have l: "map_of (sanitize_loop stringify entries []) k =
      (case map_of entries k of None \<Rightarrow> None | Some v \<Rightarrow> sanitized_value stringify v)"
    using map_of_sanitize_loop [OF assms, of stringify "[]"] by (auto split: option.splits)
  show ?thesis
  proof (cases "sanitize_loop stringify entries [] = []")
    case True
    with l show ?thesis by (simp add: sanitizeMetadata_def)
  next
    case False
    with l show ?thesis by (simp add: sanitizeMetadata_def)
  qed
qed

text \<open>
  For every key other than \<open>__proto__\<close> the loop does what its comments say: a string,
  number or boolean is kept under its key, \<open>null\<close> and \<open>undefined\<close> are left out, anything
  else is kept as the string \<open>JSON.stringify\<close> gives for it.
\<close>

lemma sanitizeMetadata_other_keys:
  assumes "distinct (map fst entries)" and "(k, v) \<in> set entries" and "k \<noteq> ''__proto__''"
  shows
    "(is_scalar v \<longrightarrow>
        (\<exists>s. sanitizeMetadata stringify (Some entries) = Some s \<and> map_of s k = Some v)) \<and>
     (v = JNull \<or> v = JUndefined \<longrightarrow>
        (\<forall>s. sanitizeMetadata stringify (Some entries) = Some s \<longrightarrow> map_of s k = None)) \<and>
     (\<not> is_scalar v \<and> v \<noteq> JNull \<and> v \<noteq> JUndefined \<longrightarrow>
        (\<exists>s. sanitizeMetadata stringify (Some entries) = Some s \<and>
             map_of s k = Some (JStr (stringify v))))"
proof -
  from assms have kv: "map_of entries k = Some v" by simp
  have look: "(case sanitizeMetadata stringify (Some entries) of None \<Rightarrow> None
               | Some s \<Rightarrow> map_of s k) = sanitized_value stringify v"
    using sanitizeMetadata_lookup [OF assms(1,3), of stringify] kv by simp
  have a: "is_scalar v \<longrightarrow>
        (\<exists>s. sanitizeMetadata stringify (Some entries) = Some s \<and> map_of s k = Some v)"
    using look by (auto simp: sanitized_value_def split: option.splits if_splits)
  have b: "v = JNull \<or> v = JUndefined \<longrightarrow>
        (\<forall>s. sanitizeMetadata stringify (Some entries) = Some s \<longrightarrow> map_of s k = None)"
    using look by (auto simp: sanitized_value_def split: option.splits if_splits)
  have c: "\<not> is_scalar v \<and> v \<noteq> JNull \<and> v \<noteq> JUndefined \<longrightarrow>
        (\<exists>s. sanitizeMetadata stringify (Some entries) = Some s \<and>
             map_of s k = Some (JStr (stringify v)))"
    using look by (auto simp: sanitized_value_def split: option.splits if_splits)
  show ?thesis by (intro conjI) (rule a b c)+
qed

lemma sanitizeMetadata_example:
  "sanitizeMetadata stringify
     (Some [(''a'', JStr ''x''), (''b'', JNum (5::int)), (''c'', JBool True), (''d'', JNull),
            (''e'', JObj [(''f'', JNum 1)])]) =
   Some [(''a'', JStr ''x''), (''b'', JNum 5), (''c'', JBool True),
         (''e'', JStr (stringify (JObj [(''f'', JNum 1)])))]"
  by (simp add: sanitizeMetadata_def assign_def)

text \<open>
  C4 says that every entry whose value is a string, a number or a boolean passes through
  unchanged under the same key. The code does not do that for an entry keyed
  \<open>__proto__\<close> (an own property that \<open>JSON.parse\<close> creates for that key): the assignment
  \<open>sanitized[key] = value\<close> creates no property, so the entry is missing from the result,
  and when it was the only entry the result is \<open>undefined\<close>. The comments in the loop say
  that only \<open>null\<close> and \<open>undefined\<close> values are left out.
\<close>

theorem sanitizeMetadata_drops_proto_entry:
  "is_scalar (JStr ''x'' :: int jsval) \<and>
   sanitizeMetadata stringify
     (Some [(''__proto__'', JStr ''x''), (''a'', JStr ''y'' :: int jsval)]) =
     Some [(''a'', JStr ''y'')] \<and>
   sanitizeMetadata stringify (Some [(''__proto__'', JStr ''x'' :: int jsval)]) = None"
  by (simp add: sanitizeMetadata_def assign_def)

section \<open>Properties of attach polling\<close>

lemma wait_loop_past_end:
  "\<not> int a \<le> n \<Longrightarrow>
     wait_loop retrieve n a d p w =
       \<lparr>poll_result = Inl (new_Error (timeout_message n)), polls = p, waits = w\<rparr>"
  by (rule trans [OF wait_loop.simps]) simp

lemma wait_loop_return:
  "int a \<le> n \<Longrightarrow> poll_try (retrieve a) = Return f \<Longrightarrow>
     wait_loop retrieve n a d p w =
       \<lparr>poll_result = Inr f, polls = Suc p, waits = (if a > 1 then w @ [d] else w)\<rparr>"
  by (rule trans [OF wait_loop.simps]) (auto simp: Let_def)

lemma wait_loop_raise:
  "int a \<le> n \<Longrightarrow> poll_try (retrieve a) = Raise err \<Longrightarrow>
   \<not> (status err = Some 404 \<and> int a < n) \<Longrightarrow>
     wait_loop retrieve n a d p w =
       \<lparr>poll_result = Inl err, polls = Suc p, waits = (if a > 1 then w @ [d] else w)\<rparr>"
  by (rule trans [OF wait_loop.simps]) (auto simp: Let_def)

lemma wait_loop_next:
  "int a \<le> n \<Longrightarrow>
   poll_try (retrieve a) = Continue \<or>
     (\<exists>err. poll_try (retrieve a) = Raise err \<and> status err = Some 404 \<and> int a < n) \<Longrightarrow>
     wait_loop retrieve n a d p w =
       wait_loop retrieve n (Suc a) (if a > 1 then min (d * (3 / 2)) 5000 else d) (Suc p)
         (if a > 1 then w @ [d] else w)"
  by (rule trans [OF wait_loop.simps]) (auto simp: Let_def)

lemma poll_from_start: "waitForVectorStoreFile retrieve n 1000 = poll_from retrieve n 1"
  by (simp add: waitForVectorStoreFile_def poll_from_def)

lemma poll_from_1:
  "poll_from retrieve n (Suc 0) = wait_loop retrieve n (Suc 0) 1000 0 []"
  by (simp add: poll_from_def)

lemma poll_from_2:
  "poll_from retrieve n (Suc (Suc b)) =
     wait_loop retrieve n (Suc (Suc b)) (backoff_delay b) (Suc b) (map backoff_delay [0..<b])"
  by (simp add: poll_from_def)

lemma poll_from_past_end:
  "\<not> int a \<le> n \<Longrightarrow>
     poll_from retrieve n a =
       \<lparr>poll_result = Inl (new_Error (timeout_message n)), polls = a - 1,
        waits = map backoff_delay [0..<a - 2]\<rparr>"
  by (simp add: poll_from_def wait_loop_past_end)

lemma poll_from_return:
  assumes "1 \<le> a" and "int a \<le> n" and "poll_try (retrieve a) = Return f"
  shows "poll_from retrieve n a =
           \<lparr>poll_result = Inr f, polls = a, waits = map backoff_delay [0..<a - 1]\<rparr>"
proof (cases a)
  case 0
  with assms show ?thesis by simp
next
  case (Suc a')
  show ?thesis
  proof (cases a')
    case 0
    with Suc assms show ?thesis
      by (simp add: poll_from_1 wait_loop_return [where retrieve = retrieve and a = "Suc 0"])
  next
    case (Suc b)
    with \<open>a = Suc a'\<close> assms show ?thesis
      by (simp add: poll_from_2 wait_loop_return [where retrieve = retrieve and a = "Suc (Suc b)"])
  qed
qed

lemma poll_from_raise:
  assumes "1 \<le> a" and "int a \<le> n" and "poll_try (retrieve a) = Raise err"
    and "\<not> (status err = Some 404 \<and> int a < n)"
  shows "poll_from retrieve n a =
           \<lparr>poll_result = Inl err, polls = a, waits = map backoff_delay [0..<a - 1]\<rparr>"
proof (cases a)
  case 0
  with assms show ?thesis by simp
next
  case (Suc a')
  show ?thesis
  proof (cases a')
    case 0
    with Suc assms show ?thesis
      by (simp add: poll_from_1
          wait_loop_raise [where retrieve = retrieve and a = "Suc 0" and err = err])
  next
    case (Suc b)
    with \<open>a = Suc a'\<close> assms show ?thesis
      by (simp add: poll_from_2
          wait_loop_raise [where retrieve = retrieve and a = "Suc (Suc b)" and err = err])
  qed
qed

lemma poll_from_next:
  assumes "1 \<le> a" and "int a \<le> n"
    and "poll_try (retrieve a) = Continue \<or>
         (\<exists>err. poll_try (retrieve a) = Raise err \<and> status err = Some 404 \<and> int a < n)"
  shows "poll_from retrieve n a = poll_from retrieve n (Suc a)"
proof (cases a)
  case 0
  with assms show ?thesis by simp
next
  case (Suc a')
  show ?thesis
  proof (cases a')
    case 0
    with Suc have a1: "a = Suc 0" by simp
    have "wait_loop retrieve n (Suc 0) 1000 0 [] =
        wait_loop retrieve n (Suc (Suc 0)) (if Suc 0 > 1 then min (1000 * (3 / 2)) 5000 else 1000)
          (Suc 0) (if Suc 0 > 1 then [] @ [1000] else [])"
      using assms(2,3) unfolding a1
      by (rule wait_loop_next [where retrieve = retrieve and a = "Suc 0"])
    then show ?thesis unfolding a1 by (simp add: poll_from_1 poll_from_2)
  next
    case (Suc b)
    with \<open>a = Suc a'\<close> have a2: "a = Suc (Suc b)" by simp
    have "wait_loop retrieve n (Suc (Suc b)) (backoff_delay b) (Suc b) (map backoff_delay [0..<b]) =
        wait_loop retrieve n (Suc (Suc (Suc b)))
          (if Suc (Suc b) > 1 then min (backoff_delay b * (3 / 2)) 5000 else backoff_delay b)
          (Suc (Suc b))
          (if Suc (Suc b) > 1 then map backoff_delay [0..<b] @ [backoff_delay b]
           else map backoff_delay [0..<b])"
      using assms(2,3) unfolding a2
      by (rule wait_loop_next [where retrieve = retrieve and a = "Suc (Suc b)"])
    then show ?thesis unfolding a2 by (simp add: poll_from_2)
  qed
qed

lemma poll_from_not_ready:
  assumes "1 \<le> a" and "int a < n" and "not_ready (retrieve a)"
  shows "poll_from retrieve n a = poll_from retrieve n (Suc a)"
proof -
  from assms(3) have "poll_try (retrieve a) = Continue \<or>
         (\<exists>err. poll_try (retrieve a) = Raise err \<and> status err = Some 404)"
    by (auto simp: not_ready_def split: poll_step.splits)
  with assms(2) have c: "poll_try (retrieve a) = Continue \<or>
         (\<exists>err. poll_try (retrieve a) = Raise err \<and> status err = Some 404 \<and> int a < n)"
    by blast
  have le: "int a \<le> n" using assms(2) by simp
  from assms(1) le c show ?thesis by (rule poll_from_next)
qed

lemma poll_from_skip:
  assumes "1 \<le> a" and "a \<le> k" and "int k \<le> n"
    and "\<forall>j. a \<le> j \<and> j < k \<longrightarrow> not_ready (retrieve j)"
  shows "poll_from retrieve n a = poll_from retrieve n k"
  using assms(2,3,4)
proof (induction k)
  case 0
  with assms(1) show ?case by simp
next
  case (Suc k)
  show ?case
  proof (cases "a = Suc k")
    case True
    then show ?thesis by simp
  next
    case False
    with Suc.prems have ak: "a \<le> k" by linarith
    have kn: "int k < n" using Suc.prems(2) by linarith
    then have kn': "int k \<le> n" by simp
    have pre: "\<forall>j. a \<le> j \<and> j < k \<longrightarrow> not_ready (retrieve j)" using Suc.prems(3) by simp
    have one: "poll_from retrieve n a = poll_from retrieve n k"
      using ak kn' pre by (rule Suc.IH)
    have k1: "1 \<le> k" using assms(1) ak by linarith
    have "not_ready (retrieve k)" using Suc.prems(3) ak by simp
    with k1 kn have "poll_from retrieve n k = poll_from retrieve n (Suc k)"
      by (rule poll_from_not_ready)
    with one show ?thesis by simp
  qed
qed


lemma poll_from_shape:
  "1 \<le> a \<Longrightarrow>
     a - 1 \<le> polls (poll_from retrieve n a) \<and>
     (int a \<le> n \<longrightarrow> a \<le> polls (poll_from retrieve n a)) \<and>
     int (polls (poll_from retrieve n a)) \<le> max n (int a - 1) \<and>
     waits (poll_from retrieve n a) =
       map backoff_delay [0..<polls (poll_from retrieve n a) - 1]"
proof (induction "nat (n + 1 - int a)" arbitrary: a)
  case 0
  then have past: "\<not> int a \<le> n" by linarith
  have p: "polls (poll_from retrieve n a) = a - 1"
    and w: "waits (poll_from retrieve n a) = map backoff_delay [0..<a - 2]"
    by (simp_all add: poll_from_past_end [OF past])
  have "a - 2 = a - 1 - 1" by simp
  with p w past 0(2) show ?case by (simp del: diff_diff_left)
next
  case (Suc m)
  then have le: "int a \<le> n" by linarith
  have m: "m = nat (n + 1 - int (Suc a))" using Suc.hyps(2) by linarith
  have IH: "Suc a - 1 \<le> polls (poll_from retrieve n (Suc a)) \<and>
     (int (Suc a) \<le> n \<longrightarrow> Suc a \<le> polls (poll_from retrieve n (Suc a))) \<and>
     int (polls (poll_from retrieve n (Suc a))) \<le> max n (int (Suc a) - 1) \<and>
     waits (poll_from retrieve n (Suc a)) =
       map backoff_delay [0..<polls (poll_from retrieve n (Suc a)) - 1]"
    using m by (rule Suc.hyps(1)) simp
  have via_next: ?case if eq: "poll_from retrieve n a = poll_from retrieve n (Suc a)"
  proof -
    have mx: "max n (int (Suc a) - 1) = max n (int a - 1)" using le by simp
    from IH have p1: "a \<le> polls (poll_from retrieve n (Suc a))" by simp
    then have p0: "a - 1 \<le> polls (poll_from retrieve n (Suc a))" by linarith
    from IH mx have p2: "int (polls (poll_from retrieve n (Suc a))) \<le> max n (int a - 1)"
      by simp
    from IH have p3: "waits (poll_from retrieve n (Suc a)) =
       map backoff_delay [0..<polls (poll_from retrieve n (Suc a)) - 1]" by blast
    show ?thesis unfolding eq using p0 p1 p2 p3 by blast
  qed
  show ?case
  proof (cases "poll_try (retrieve a)")
    case (Return f)
    from poll_from_return [where retrieve = retrieve and a = a, OF Suc.prems le Return] le show ?thesis by simp
  next
    case Continue
    then have "poll_from retrieve n a = poll_from retrieve n (Suc a)"
      using poll_from_next [where retrieve = retrieve and a = a, OF Suc.prems le] by simp
    then show ?thesis by (rule via_next)
  next
    case (Raise err)
    show ?thesis
    proof (cases "status err = Some 404 \<and> int a < n")
      case True
      with Raise have "poll_from retrieve n a = poll_from retrieve n (Suc a)"
        using poll_from_next [where retrieve = retrieve and a = a, OF Suc.prems le] by simp
      then show ?thesis by (rule via_next)
    next
      case False
      from poll_from_raise [where retrieve = retrieve and a = a, OF Suc.prems le Raise False] le show ?thesis by simp
    qed
  qed
qed

lemma poll_from_timeout:
  assumes "1 \<le> n" and "\<forall>j. 1 \<le> j \<and> int j < n \<longrightarrow> not_ready (retrieve j)"
    and "poll_try (retrieve (nat n)) = Continue"
  shows "poll_from retrieve n 1 =
           \<lparr>poll_result = Inl (new_Error (timeout_message n)), polls = nat n,
            waits = map backoff_delay [0..<nat n - 1]\<rparr>"
proof -
  have k: "(1::nat) \<le> nat n" "int (nat n) \<le> n" using assms(1) by simp_all
  have pre: "\<forall>j. 1 \<le> j \<and> j < nat n \<longrightarrow> not_ready (retrieve j)"
    using assms(2) by (simp add: zless_nat_eq_int_zless)
  have "poll_from retrieve n 1 = poll_from retrieve n (nat n)"
    using poll_from_skip [of 1 "nat n" n retrieve] k pre by simp
  also have "\<dots> = poll_from retrieve n (Suc (nat n))"
    using poll_from_next [where retrieve = retrieve and a = "nat n", OF k] assms(3) by simp
  also have "\<dots> = \<lparr>poll_result = Inl (new_Error (timeout_message n)), polls = Suc (nat n) - 1,
        waits = map backoff_delay [0..<Suc (nat n) - 2]\<rparr>"
    by (rule poll_from_past_end) simp
  finally show ?thesis by simp
qed

lemma poll_try_completed:
  "r = Inr f \<Longrightarrow> file_status f = ''completed'' \<Longrightarrow> poll_try r = Return f"
  by (simp add: poll_try_def)

lemma poll_try_failed:
  "r = Inr f \<Longrightarrow> file_status f = ''failed'' \<Longrightarrow>
     poll_try r =
       Raise (new_Error (failed_message (or_str_default (last_error_message f) ''Unknown error'')))"
  by (simp add: poll_try_def)

lemma poll_try_cancelled:
  "r = Inr f \<Longrightarrow> file_status f = ''cancelled'' \<Longrightarrow>
     poll_try r = Raise (new_Error cancelled_message)"
  by (simp add: poll_try_def)

lemma status_new_Error: "status (new_Error msg) = None"
  by (simp add: new_Error_def)

lemma map_new_Error:
  "msg \<noteq> [] \<Longrightarrow>
     mapOpenAIError (Thrown (new_Error msg)) =
       new_OpenAIError msg ''unknown_error'' 500 (Thrown (new_Error msg))"
  by (simp add: mapOpenAIError_def Let_def errorMessage_def errorType_def rawStatusCode_def
      or_str_def or_num_def truthy_str_def truthy_num_def opt_message_def opt_type_def
      opt_status_def opt_statusCode_def opt_error_message_def opt_error_type_def
      or_str_default_def or_num_default_def new_Error_def)

lemma first_terminal_raise:
  assumes "1 \<le> k" and "int k \<le> n" and "\<forall>j. 1 \<le> j \<and> j < k \<longrightarrow> not_ready (retrieve j)"
    and "poll_try (retrieve k) = Raise err" and "\<not> (status err = Some 404 \<and> int k < n)"
  shows "poll_from retrieve n 1 =
           \<lparr>poll_result = Inl err, polls = k, waits = map backoff_delay [0..<k - 1]\<rparr>"
proof -
  have "poll_from retrieve n 1 = poll_from retrieve n k"
    using poll_from_skip [of 1 k n retrieve] assms(1,2,3) by simp
  with poll_from_raise [where retrieve = retrieve and a = k, OF assms(1,2,4,5)] show ?thesis by simp
qed

lemma first_terminal_return:
  assumes "1 \<le> k" and "int k \<le> n" and "\<forall>j. 1 \<le> j \<and> j < k \<longrightarrow> not_ready (retrieve j)"
    and "poll_try (retrieve k) = Return f"
  shows "poll_from retrieve n 1 =
           \<lparr>poll_result = Inr f, polls = k, waits = map backoff_delay [0..<k - 1]\<rparr>"
proof -
  have "poll_from retrieve n 1 = poll_from retrieve n k"
    using poll_from_skip [of 1 k n retrieve] assms(1,2,3) by simp
  with poll_from_return [where retrieve = retrieve and a = k, OF assms(1,2,4)] show ?thesis by simp
qed


lemma backoff_first_two: "map backoff_delay [0..<2] = [1000, 1500]"
  by (simp add: numeral_2_eq_2)

lemma timeout_message_60:
  "timeout_message 60 =
     ''Timeout: Archivo no complet'' @ o_acute @ '' procesamiento despu'' @ e_acute @
     ''s de 60 intentos''"
proof -
  have "show_nat 60 = show_nat 6 @ [''0123456789'' ! 0]"
    by (subst show_nat.simps) simp
  also have "show_nat 6 = ''6''" by (subst show_nat.simps) simp
  finally have "show_int 60 = ''60''" by (simp add: show_int_def)
  then show ?thesis by (simp add: timeout_message_def)
qed

lemma messages_nonempty:
  "failed_message x \<noteq> []" "cancelled_message \<noteq> []" "timeout_message n \<noteq> []"
  by (simp_all add: failed_message_def cancelled_message_def timeout_message_def)

lemma messages_distinct:
  "cancelled_message \<noteq> failed_message x" "cancelled_message \<noteq> timeout_message n"
  "failed_message x \<noteq> timeout_message n"
  by (simp_all add: failed_message_def cancelled_message_def timeout_message_def)

lemma addFile_polling_rethrow:
  assumes "file_status c = ''in_progress''"
    and "poll_result (waitForVectorStoreFile retrieve 60 1000) = Inl err"
  shows "addFileToVectorStore (Inr c) retrieve = Inl (mapOpenAIError (Thrown err))"
  using assms by (simp add: addFileToVectorStore_def createAndPollVectorStoreFile_def)

lemma map_status_404:
  assumes "status err = Some 404" and "\<not> recognized_tag (errorType (Thrown err))"
  shows "name (mapOpenAIError (Thrown err)) = OpenAINotFoundError \<and>
         err_statusCode (mapOpenAIError (Thrown err)) = 404"
proof -
  from assms(1) have "rawStatusCode (Thrown err) = Some 404"
    by (simp add: rawStatusCode_def or_num_def truthy_num_def opt_status_def)
  with assms(2) show ?thesis
    by (simp add: map_unrecognized truthy_num_def mapByStatusCode_def ctor_defs)
qed

lemma poll_try_pending:
  "r = Inr g \<Longrightarrow> file_status g \<notin> {''completed'', ''failed'', ''cancelled''} \<Longrightarrow>
     poll_try r = Continue"
  by (simp add: poll_try_def)

lemma createAndPoll_polling_error:
  assumes "file_status c = ''in_progress''"
    and "poll_result (waitForVectorStoreFile retrieve 60 1000) = Inl (new_Error msg)"
    and "msg \<noteq> []"
  shows "addFileToVectorStore (Inr c) retrieve =
           Inl \<lparr>name = OpenAIError, err_message = msg, err_type = ''unknown_error'',
                err_statusCode = 500, originalError = Thrown (new_Error msg)\<rparr>"
  using assms
  by (simp add: addFileToVectorStore_def createAndPollVectorStoreFile_def map_new_Error
      new_OpenAIError_def)

text \<open>
  C5: the polling loop started with the defaults polls at most 60 times; the first poll
  is made without a wait and the waits before the later polls follow the schedule that
  starts at 1000 and continues with \<open>min(prev * 1.5, 5000)\<close>; a poll that returns status
  \<open>completed\<close> ends the loop with that record, so a first poll that is \<open>completed\<close>
  returns with no wait; a poll that fails with 404 before the last attempt is followed by
  another poll; and the sequence 404, \<open>in_progress\<close>, \<open>completed\<close> returns the
  completed record after 3 polls and waits of 1000 and 1500.
\<close>

theorem waitForVectorStoreFile_polling:
  "polls (waitForVectorStoreFile retrieve 60 1000) \<le> 60 \<and>
   waits (waitForVectorStoreFile retrieve 60 1000) =
     map backoff_delay [0..<polls (waitForVectorStoreFile retrieve 60 1000) - 1] \<and>
   (\<forall>f. retrieve 1 = Inr f \<and> file_status f = ''completed'' \<longrightarrow>
      waitForVectorStoreFile retrieve 60 1000 =
        \<lparr>poll_result = Inr f, polls = 1, waits = []\<rparr>) \<and>
   (\<forall>k f. 1 \<le> k \<and> k \<le> 60 \<and> (\<forall>j. 1 \<le> j \<and> j < k \<longrightarrow> not_ready (retrieve j)) \<and>
      retrieve k = Inr f \<and> file_status f = ''completed'' \<longrightarrow>
      poll_result (waitForVectorStoreFile retrieve 60 1000) = Inr f \<and>
      polls (waitForVectorStoreFile retrieve 60 1000) = k) \<and>
   (\<forall>k err. 1 \<le> k \<and> k < 60 \<and> (\<forall>j. 1 \<le> j \<and> j < k \<longrightarrow> not_ready (retrieve j)) \<and>
      retrieve k = Inl err \<and> status err = Some 404 \<longrightarrow>
      k < polls (waitForVectorStoreFile retrieve 60 1000)) \<and>
   (\<forall>err g f. retrieve 1 = Inl err \<and> status err = Some 404 \<and>
      retrieve 2 = Inr g \<and> file_status g = ''in_progress'' \<and>
      retrieve 3 = Inr f \<and> file_status f = ''completed'' \<longrightarrow>
      waitForVectorStoreFile retrieve 60 1000 =
        \<lparr>poll_result = Inr f, polls = 3, waits = [1000, 1500]\<rparr>)"
proof -
  let ?W = "waitForVectorStoreFile retrieve 60 1000"
  have W: "?W = poll_from retrieve 60 1" by (rule poll_from_start)
  have shape: "int (polls ?W) \<le> max 60 (int 1 - 1) \<and>
      waits ?W = map backoff_delay [0..<polls ?W - 1]"
    unfolding W using poll_from_shape [of 1 retrieve 60] by blast
  have a: "polls ?W \<le> 60" using shape by simp
  have b: "waits ?W = map backoff_delay [0..<polls ?W - 1]" using shape by blast
  have d: "poll_result ?W = Inr f \<and> polls ?W = k"
    if h: "1 \<le> k \<and> k \<le> 60 \<and> (\<forall>j. 1 \<le> j \<and> j < k \<longrightarrow> not_ready (retrieve j)) \<and>
      retrieve k = Inr f \<and> file_status f = ''completed''" for k f
  proof -
    from h have r: "poll_try (retrieve k) = Return f" by (simp add: poll_try_completed)
    from h have k: "1 \<le> k" "int k \<le> 60"
      and pre: "\<forall>j. 1 \<le> j \<and> j < k \<longrightarrow> not_ready (retrieve j)" by simp_all
    from first_terminal_return [where retrieve = retrieve and k = k, OF k pre r]
    show ?thesis unfolding W by simp
  qed
  have c: "?W = \<lparr>poll_result = Inr f, polls = 1, waits = []\<rparr>"
    if h: "retrieve 1 = Inr f \<and> file_status f = ''completed''" for f
  proof -
    from h have r: "poll_try (retrieve 1) = Return f" by (simp add: poll_try_completed)
    have k: "(1::nat) \<le> 1" "int 1 \<le> 60" by simp_all
    have pre: "\<forall>j. 1 \<le> j \<and> j < 1 \<longrightarrow> not_ready (retrieve j)" by simp
    from first_terminal_return [where retrieve = retrieve and k = 1, OF k pre r]
    show ?thesis unfolding W by simp
  qed
  have e: "k < polls ?W"
    if h: "1 \<le> k \<and> k < 60 \<and> (\<forall>j. 1 \<le> j \<and> j < k \<longrightarrow> not_ready (retrieve j)) \<and>
      retrieve k = Inl err \<and> status err = Some 404" for k err
  proof -
    from h have "not_ready (retrieve k)" by (simp add: not_ready_def poll_try_def)
    with h have pre: "\<forall>j. 1 \<le> j \<and> j < Suc k \<longrightarrow> not_ready (retrieve j)"
      by (metis less_Suc_eq)
    from h have k: "1 \<le> Suc k" "int (Suc k) \<le> 60" by simp_all
    have "poll_from retrieve 60 1 = poll_from retrieve 60 (Suc k)"
      using poll_from_skip [of 1 "Suc k" 60 retrieve] k pre by simp
    moreover have "Suc k \<le> polls (poll_from retrieve 60 (Suc k))"
      using poll_from_shape [OF k(1), of retrieve 60] k(2) by blast
    ultimately show ?thesis unfolding W by simp
  qed
  have f: "?W = \<lparr>poll_result = Inr f, polls = 3, waits = [1000, 1500]\<rparr>"
    if h: "retrieve 1 = Inl err \<and> status err = Some 404 \<and>
      retrieve 2 = Inr g \<and> file_status g = ''in_progress'' \<and>
      retrieve 3 = Inr f \<and> file_status f = ''completed''" for err g f
  proof -
    from h have r: "poll_try (retrieve 3) = Return f" by (simp add: poll_try_completed)
    from h have n1: "not_ready (retrieve 1)" by (simp add: not_ready_def poll_try_def)
    from h have n2: "not_ready (retrieve 2)" by (simp add: not_ready_def poll_try_def)
    have pre: "\<forall>j. 1 \<le> j \<and> j < 3 \<longrightarrow> not_ready (retrieve j)"
    proof (intro allI impI)
      fix j :: nat
      assume "1 \<le> j \<and> j < 3"
      then have "j = 1 \<or> j = 2" by linarith
      with n1 n2 show "not_ready (retrieve j)" by blast
    qed
    have k: "(1::nat) \<le> 3" "int 3 \<le> 60" by simp_all
    have "(3::nat) - 1 = 2" by simp
    with first_terminal_return [where retrieve = retrieve and k = 3, OF k pre r]
    show ?thesis unfolding W by (simp add: backoff_first_two)
  qed
  show ?thesis
    using a b c d e f by blast
qed


theorem waitForVectorStoreFile_polling_witness:
  "waitForVectorStoreFile
     (\<lambda>k. if k = 1 then Inl \<lparr>message = Some ''No file found'', type = None, status = Some 404,
                               statusCode = None, error = None\<rparr>
          else if k = 2 then Inr \<lparr>file_id = ''file-1'', file_status = ''in_progress'',
                                  created_at = 1700000000, last_error_message = None\<rparr>
          else Inr \<lparr>file_id = ''file-1'', file_status = ''completed'',
                    created_at = 1700000000, last_error_message = None\<rparr>) 60 1000 =
   \<lparr>poll_result = Inr \<lparr>file_id = ''file-1'', file_status = ''completed'',
                        created_at = 1700000000, last_error_message = None\<rparr>,
    polls = 3, waits = [1000, 1500]\<rparr>"
proof -
  let ?r = "\<lambda>k::nat. if k = 1 then Inl \<lparr>message = Some ''No file found'', type = None,
                               status = Some 404, statusCode = None, error = None\<rparr>
          else if k = 2 then Inr \<lparr>file_id = ''file-1'', file_status = ''in_progress'',
                                  created_at = 1700000000, last_error_message = None\<rparr>
          else Inr \<lparr>file_id = ''file-1'', file_status = ''completed'',
                    created_at = 1700000000, last_error_message = None\<rparr>"
  let ?e = "\<lparr>message = Some ''No file found'', type = None, status = Some 404,
             statusCode = None, error = None\<rparr>"
  let ?g = "\<lparr>file_id = ''file-1'', file_status = ''in_progress'',
             created_at = 1700000000, last_error_message = None\<rparr>"
  let ?f = "\<lparr>file_id = ''file-1'', file_status = ''completed'',
             created_at = 1700000000, last_error_message = None\<rparr>"
  have h: "?r 1 = Inl ?e \<and> status ?e = Some 404 \<and>
      ?r 2 = Inr ?g \<and> file_status ?g = ''in_progress'' \<and>
      ?r 3 = Inr ?f \<and> file_status ?f = ''completed''"
    by simp
  have all: "\<forall>err g f. ?r 1 = Inl err \<and> status err = Some 404 \<and>
      ?r 2 = Inr g \<and> file_status g = ''in_progress'' \<and>
      ?r 3 = Inr f \<and> file_status f = ''completed'' \<longrightarrow>
      waitForVectorStoreFile ?r 60 1000 =
        \<lparr>poll_result = Inr f, polls = 3, waits = [1000, 1500]\<rparr>"
    by (rule waitForVectorStoreFile_polling [of ?r, THEN conjunct2, THEN conjunct2,
          THEN conjunct2, THEN conjunct2, THEN conjunct2])
  from all [THEN spec, THEN spec, THEN spec, THEN mp, OF h] show ?thesis .
qed

text \<open>
  C6, as stated, says that exhausting the 60 attempts reaches the caller as a
  Timeout-kind error with status 408. The loop throws a plain \<open>Error\<close>, which has neither
  type tag nor status, so \<open>mapOpenAIError\<close> makes it the generic error with status 500.
\<close>

theorem polling_timeout_is_classified_generic:
  "addFileToVectorStore
     (Inr \<lparr>file_id = ''file-1'', file_status = ''in_progress'', created_at = 1700000000,
           last_error_message = None\<rparr>)
     (\<lambda>k. Inr \<lparr>file_id = ''file-1'', file_status = ''in_progress'', created_at = 1700000000,
               last_error_message = None\<rparr>) =
   Inl \<lparr>name = OpenAIError, err_message = timeout_message 60, err_type = ''unknown_error'',
        err_statusCode = 500, originalError = Thrown (new_Error (timeout_message 60))\<rparr> \<and>
   OpenAIError \<noteq> OpenAITimeoutError \<and> (500::int) \<noteq> 408"
proof -
  let ?g = "\<lparr>file_id = ''file-1'', file_status = ''in_progress'', created_at = 1700000000,
           last_error_message = None\<rparr>"
  let ?r = "\<lambda>k::nat. Inr ?g :: raw_error + vs_file"
  have c: "poll_try (?r k) = Continue" for k :: nat by (simp add: poll_try_def)
  then have n: "\<forall>j. 1 \<le> j \<and> int j < 60 \<longrightarrow> not_ready (?r j)" by (simp add: not_ready_def)
  have "poll_from ?r 60 1 =
      \<lparr>poll_result = Inl (new_Error (timeout_message 60)), polls = nat 60,
       waits = map backoff_delay [0..<nat 60 - 1]\<rparr>"
    by (rule poll_from_timeout [where retrieve = ?r]) (use n c in simp_all)
  then have "poll_result (waitForVectorStoreFile ?r 60 1000) = Inl (new_Error (timeout_message 60))"
    by (simp add: poll_from_start)
  then have "addFileToVectorStore (Inr ?g) ?r =
      Inl \<lparr>name = OpenAIError, err_message = timeout_message 60, err_type = ''unknown_error'',
        err_statusCode = 500, originalError = Thrown (new_Error (timeout_message 60))\<rparr>"
    by (intro createAndPoll_polling_error messages_nonempty) simp
  then show ?thesis by simp
qed

text \<open>
  C6 (amended): in the attach-polling loop a poll that observes status \<open>failed\<close> raises an
  error whose message carries the vendor's failure reason when there is one and
  \<open>Unknown error\<close> when there is none; a poll that observes \<open>cancelled\<close> raises an error
  with a cancellation message different from the other two; when none of the first 59
  polls is terminal (each returns a record in a non-terminal status or fails with 404)
  and the 60th returns a record in a non-terminal status, the error raised has a
  message that begins with \<open>Timeout\<close> and names the 60 attempts. After classification each
  of these three reaches the caller of \<open>addFileToVectorStore\<close> (which is
  \<open>createAndPollVectorStoreFile\<close>) as the generic \<open>OpenAIError\<close> with type \<open>unknown_error\<close>
  and status 500, its message kept. A poll that fails with any error, except a 404
  before the last attempt, re-raises that error, which reaches the caller classified by
  \<open>mapOpenAIError\<close>; in particular a 404 on the 60th poll reaches the caller as a NotFound
  error with status 404 (when it carries no recognised type tag), not as a timeout.
\<close>

theorem attach_polling_errors:
  assumes "file_status c = ''in_progress''" and "1 \<le> k" and "k \<le> 60"
    and "\<forall>j. 1 \<le> j \<and> j < k \<longrightarrow> not_ready (retrieve j)"
  shows
    "(\<forall>f. retrieve k = Inr f \<and> file_status f = ''failed'' \<longrightarrow>
        poll_result (waitForVectorStoreFile retrieve 60 1000) =
          Inl (new_Error (failed_message
                 (or_str_default (last_error_message f) ''Unknown error''))) \<and>
        addFileToVectorStore (Inr c) retrieve =
          Inl \<lparr>name = OpenAIError,
               err_message =
                 failed_message (or_str_default (last_error_message f) ''Unknown error''),
               err_type = ''unknown_error'', err_statusCode = 500,
               originalError = Thrown (new_Error (failed_message
                 (or_str_default (last_error_message f) ''Unknown error'')))\<rparr> \<and>
        (\<forall>reason. last_error_message f = Some reason \<and> reason \<noteq> [] \<longrightarrow>
           or_str_default (last_error_message f) ''Unknown error'' = reason) \<and>
        (last_error_message f = None \<or> last_error_message f = Some [] \<longrightarrow>
           or_str_default (last_error_message f) ''Unknown error'' = ''Unknown error'')) \<and>
     (\<forall>f. retrieve k = Inr f \<and> file_status f = ''cancelled'' \<longrightarrow>
        poll_result (waitForVectorStoreFile retrieve 60 1000) =
          Inl (new_Error cancelled_message) \<and>
        addFileToVectorStore (Inr c) retrieve =
          Inl \<lparr>name = OpenAIError, err_message = cancelled_message,
               err_type = ''unknown_error'', err_statusCode = 500,
               originalError = Thrown (new_Error cancelled_message)\<rparr>) \<and>
     (k = 60 \<and>
      (\<exists>g. retrieve 60 = Inr g \<and>
           file_status g \<notin> {''completed'', ''failed'', ''cancelled''}) \<longrightarrow>
        poll_result (waitForVectorStoreFile retrieve 60 1000) =
          Inl (new_Error (timeout_message 60)) \<and>
        polls (waitForVectorStoreFile retrieve 60 1000) = 60 \<and>
        addFileToVectorStore (Inr c) retrieve =
          Inl \<lparr>name = OpenAIError, err_message = timeout_message 60,
               err_type = ''unknown_error'', err_statusCode = 500,
               originalError = Thrown (new_Error (timeout_message 60))\<rparr>) \<and>
     (\<forall>err. retrieve k = Inl err \<and> \<not> (status err = Some 404 \<and> k < 60) \<longrightarrow>
        poll_result (waitForVectorStoreFile retrieve 60 1000) = Inl err \<and>
        polls (waitForVectorStoreFile retrieve 60 1000) = k \<and>
        addFileToVectorStore (Inr c) retrieve = Inl (mapOpenAIError (Thrown err))) \<and>
     (\<forall>err. k = 60 \<and> retrieve 60 = Inl err \<and> status err = Some 404 \<and>
        \<not> recognized_tag (errorType (Thrown err)) \<longrightarrow>
        addFileToVectorStore (Inr c) retrieve = Inl (mapOpenAIError (Thrown err)) \<and>
        name (mapOpenAIError (Thrown err)) = OpenAINotFoundError \<and>
        err_statusCode (mapOpenAIError (Thrown err)) = 404) \<and>
     timeout_message 60 =
       ''Timeout: Archivo no complet'' @ o_acute @ '' procesamiento despu'' @ e_acute @
       ''s de 60 intentos'' \<and>
     (\<forall>reason n. cancelled_message \<noteq> failed_message reason \<and>
        cancelled_message \<noteq> timeout_message n \<and> failed_message reason \<noteq> timeout_message n)"
proof -
  let ?W = "waitForVectorStoreFile retrieve 60 1000"
  have W: "?W = poll_from retrieve 60 1" by (rule poll_from_start)
  have k: "1 \<le> k" "int k \<le> 60" using assms(2,3) by simp_all
  have rethrow: "poll_result ?W = Inl err \<and> polls ?W = k"
    if "poll_try (retrieve k) = Raise err" and "\<not> (status err = Some 404 \<and> int k < 60)" for err
    using first_terminal_raise [where retrieve = retrieve and k = k, OF k assms(4) that]
    unfolding W by simp
  have raise: "poll_result ?W = Inl (new_Error msg)"
    if "poll_try (retrieve k) = Raise (new_Error msg)" for msg
  proof -
    have "\<not> (status (new_Error msg) = Some 404 \<and> int k < 60)" by (simp add: status_new_Error)
    from rethrow [OF that this] show ?thesis by blast
  qed
  have a: "poll_result ?W =
          Inl (new_Error (failed_message
                 (or_str_default (last_error_message f) ''Unknown error''))) \<and>
        addFileToVectorStore (Inr c) retrieve =
          Inl \<lparr>name = OpenAIError,
               err_message =
                 failed_message (or_str_default (last_error_message f) ''Unknown error''),
               err_type = ''unknown_error'', err_statusCode = 500,
               originalError = Thrown (new_Error (failed_message
                 (or_str_default (last_error_message f) ''Unknown error'')))\<rparr> \<and>
        (\<forall>reason. last_error_message f = Some reason \<and> reason \<noteq> [] \<longrightarrow>
           or_str_default (last_error_message f) ''Unknown error'' = reason) \<and>
        (last_error_message f = None \<or> last_error_message f = Some [] \<longrightarrow>
           or_str_default (last_error_message f) ''Unknown error'' = ''Unknown error'')"
    if h: "retrieve k = Inr f \<and> file_status f = ''failed''" for f
  proof -
    from h have "poll_try (retrieve k) = Raise (new_Error (failed_message
                 (or_str_default (last_error_message f) ''Unknown error'')))"
      by (simp add: poll_try_failed)
    then have r: "poll_result ?W = Inl (new_Error (failed_message
                 (or_str_default (last_error_message f) ''Unknown error'')))"
      by (rule raise)
    with assms(1) have s: "addFileToVectorStore (Inr c) retrieve =
          Inl \<lparr>name = OpenAIError,
               err_message =
                 failed_message (or_str_default (last_error_message f) ''Unknown error''),
               err_type = ''unknown_error'', err_statusCode = 500,
               originalError = Thrown (new_Error (failed_message
                 (or_str_default (last_error_message f) ''Unknown error'')))\<rparr>"
      by (rule createAndPoll_polling_error) (rule messages_nonempty)
    have given: "\<forall>reason. last_error_message f = Some reason \<and> reason \<noteq> [] \<longrightarrow>
           or_str_default (last_error_message f) ''Unknown error'' = reason"
      by (simp add: or_str_default_def)
    have absent: "last_error_message f = None \<or> last_error_message f = Some [] \<longrightarrow>
           or_str_default (last_error_message f) ''Unknown error'' = ''Unknown error''"
      by (auto simp: or_str_default_def)
    show ?thesis by (intro conjI) (rule r s given absent)+
  qed
  have b: "poll_result ?W = Inl (new_Error cancelled_message) \<and>
        addFileToVectorStore (Inr c) retrieve =
          Inl \<lparr>name = OpenAIError, err_message = cancelled_message,
               err_type = ''unknown_error'', err_statusCode = 500,
               originalError = Thrown (new_Error cancelled_message)\<rparr>"
    if h: "retrieve k = Inr f \<and> file_status f = ''cancelled''" for f
  proof -
    from h have "poll_try (retrieve k) = Raise (new_Error cancelled_message)"
      by (simp add: poll_try_cancelled)
    then have r: "poll_result ?W = Inl (new_Error cancelled_message)" by (rule raise)
    with assms(1) have "addFileToVectorStore (Inr c) retrieve =
          Inl \<lparr>name = OpenAIError, err_message = cancelled_message,
               err_type = ''unknown_error'', err_statusCode = 500,
               originalError = Thrown (new_Error cancelled_message)\<rparr>"
      by (rule createAndPoll_polling_error) (rule messages_nonempty)
    with r show ?thesis by blast
  qed
  have t: "poll_result ?W = Inl (new_Error (timeout_message 60)) \<and> polls ?W = 60 \<and>
        addFileToVectorStore (Inr c) retrieve =
          Inl \<lparr>name = OpenAIError, err_message = timeout_message 60,
               err_type = ''unknown_error'', err_statusCode = 500,
               originalError = Thrown (new_Error (timeout_message 60))\<rparr>"
    if h: "k = 60 \<and>
      (\<exists>g. retrieve 60 = Inr g \<and> file_status g \<notin> {''completed'', ''failed'', ''cancelled''})"
  proof -
    from h assms(4) have n: "\<forall>j. 1 \<le> j \<and> int j < 60 \<longrightarrow> not_ready (retrieve j)" by simp
    from h obtain g where "retrieve 60 = Inr g"
      "file_status g \<notin> {''completed'', ''failed'', ''cancelled''}" by blast
    then have "poll_try (retrieve 60) = Continue" by (rule poll_try_pending)
    then have c60: "poll_try (retrieve (nat 60)) = Continue" by simp
    have "poll_from retrieve 60 1 =
      \<lparr>poll_result = Inl (new_Error (timeout_message 60)), polls = nat 60,
       waits = map backoff_delay [0..<nat 60 - 1]\<rparr>"
      by (rule poll_from_timeout [where retrieve = retrieve, OF _ n c60]) simp
    then have r: "poll_result ?W = Inl (new_Error (timeout_message 60))" and p: "polls ?W = 60"
      unfolding W by simp_all
    from assms(1) r have "addFileToVectorStore (Inr c) retrieve =
          Inl \<lparr>name = OpenAIError, err_message = timeout_message 60,
               err_type = ''unknown_error'', err_statusCode = 500,
               originalError = Thrown (new_Error (timeout_message 60))\<rparr>"
      by (rule createAndPoll_polling_error) (rule messages_nonempty)
    with r p show ?thesis by blast
  qed
  have g: "poll_result ?W = Inl err \<and> polls ?W = k \<and>
        addFileToVectorStore (Inr c) retrieve = Inl (mapOpenAIError (Thrown err))"
    if h: "retrieve k = Inl err \<and> \<not> (status err = Some 404 \<and> k < 60)" for err
  proof -
    from h have p: "poll_try (retrieve k) = Raise err" by (simp add: poll_try_def)
    from h have "\<not> (status err = Some 404 \<and> int k < 60)" by simp
    from rethrow [OF p this] have r: "poll_result ?W = Inl err" and q: "polls ?W = k"
      by simp_all
    from assms(1) r have "addFileToVectorStore (Inr c) retrieve = Inl (mapOpenAIError (Thrown err))"
      by (rule addFile_polling_rethrow)
    with r q show ?thesis by blast
  qed
  have nf: "addFileToVectorStore (Inr c) retrieve = Inl (mapOpenAIError (Thrown err)) \<and>
        name (mapOpenAIError (Thrown err)) = OpenAINotFoundError \<and>
        err_statusCode (mapOpenAIError (Thrown err)) = 404"
    if h: "k = 60 \<and> retrieve 60 = Inl err \<and> status err = Some 404 \<and>
        \<not> recognized_tag (errorType (Thrown err))" for err
  proof -
    from h have "retrieve k = Inl err \<and> \<not> (status err = Some 404 \<and> k < 60)" by simp
    from g [OF this] have s: "addFileToVectorStore (Inr c) retrieve =
        Inl (mapOpenAIError (Thrown err))" by blast
    from h have "status err = Some 404" "\<not> recognized_tag (errorType (Thrown err))" by simp_all
    from map_status_404 [OF this] s show ?thesis by blast
  qed
  have m: "\<forall>reason n. cancelled_message \<noteq> failed_message reason \<and>
        cancelled_message \<noteq> timeout_message n \<and> failed_message reason \<noteq> timeout_message n"
    using messages_distinct by blast
  have A: "\<forall>f. retrieve k = Inr f \<and> file_status f = ''failed'' \<longrightarrow>
        poll_result ?W =
          Inl (new_Error (failed_message
                 (or_str_default (last_error_message f) ''Unknown error''))) \<and>
        addFileToVectorStore (Inr c) retrieve =
          Inl \<lparr>name = OpenAIError,
               err_message =
                 failed_message (or_str_default (last_error_message f) ''Unknown error''),
               err_type = ''unknown_error'', err_statusCode = 500,
               originalError = Thrown (new_Error (failed_message
                 (or_str_default (last_error_message f) ''Unknown error'')))\<rparr> \<and>
        (\<forall>reason. last_error_message f = Some reason \<and> reason \<noteq> [] \<longrightarrow>
           or_str_default (last_error_message f) ''Unknown error'' = reason) \<and>
        (last_error_message f = None \<or> last_error_message f = Some [] \<longrightarrow>
           or_str_default (last_error_message f) ''Unknown error'' = ''Unknown error'')"
    using a by (intro allI impI)
  have B: "\<forall>f. retrieve k = Inr f \<and> file_status f = ''cancelled'' \<longrightarrow>
        poll_result ?W = Inl (new_Error cancelled_message) \<and>
        addFileToVectorStore (Inr c) retrieve =
          Inl \<lparr>name = OpenAIError, err_message = cancelled_message,
               err_type = ''unknown_error'', err_statusCode = 500,
               originalError = Thrown (new_Error cancelled_message)\<rparr>"
    using b by (intro allI impI)
  have T: "k = 60 \<and>
      (\<exists>g. retrieve 60 = Inr g \<and>
           file_status g \<notin> {''completed'', ''failed'', ''cancelled''}) \<longrightarrow>
        poll_result ?W = Inl (new_Error (timeout_message 60)) \<and> polls ?W = 60 \<and>
        addFileToVectorStore (Inr c) retrieve =
          Inl \<lparr>name = OpenAIError, err_message = timeout_message 60,
               err_type = ''unknown_error'', err_statusCode = 500,
               originalError = Thrown (new_Error (timeout_message 60))\<rparr>"
    using t by (intro impI)
  have G: "\<forall>err. retrieve k = Inl err \<and> \<not> (status err = Some 404 \<and> k < 60) \<longrightarrow>
        poll_result ?W = Inl err \<and> polls ?W = k \<and>
        addFileToVectorStore (Inr c) retrieve = Inl (mapOpenAIError (Thrown err))"
    using g by (intro allI impI)
  have N: "\<forall>err. k = 60 \<and> retrieve 60 = Inl err \<and> status err = Some 404 \<and>
        \<not> recognized_tag (errorType (Thrown err)) \<longrightarrow>
        addFileToVectorStore (Inr c) retrieve = Inl (mapOpenAIError (Thrown err)) \<and>
        name (mapOpenAIError (Thrown err)) = OpenAINotFoundError \<and>
        err_statusCode (mapOpenAIError (Thrown err)) = 404"
    using nf by (intro allI impI)
  show ?thesis
    by (intro conjI) (rule A B T G N timeout_message_60 m)+
qed

theorem attach_polling_errors_witness:
  "addFileToVectorStore
     (Inr \<lparr>file_id = ''file-1'', file_status = ''in_progress'', created_at = 1700000000,
           last_error_message = None\<rparr>)
     (\<lambda>k. if k = 1
          then Inr \<lparr>file_id = ''file-1'', file_status = ''in_progress'',
                    created_at = 1700000000, last_error_message = None\<rparr>
          else Inr \<lparr>file_id = ''file-1'', file_status = ''failed'',
                    created_at = 1700000000, last_error_message = Some ''Unsupported file''\<rparr>) =
   Inl \<lparr>name = OpenAIError, err_message = failed_message ''Unsupported file'',
        err_type = ''unknown_error'', err_statusCode = 500,
        originalError = Thrown (new_Error (failed_message ''Unsupported file''))\<rparr> \<and>
   polls (waitForVectorStoreFile
     (\<lambda>k. Inr \<lparr>file_id = ''file-1'', file_status = ''in_progress'', created_at = 1700000000,
               last_error_message = None\<rparr>) 60 1000) = 60 \<and>
   poll_result (waitForVectorStoreFile
     (\<lambda>k. Inr \<lparr>file_id = ''file-1'', file_status = ''in_progress'', created_at = 1700000000,
               last_error_message = None\<rparr>) 60 1000) = Inl (new_Error (timeout_message 60)) \<and>
   name (mapOpenAIError (Thrown \<lparr>message = Some ''No file found'', type = None,
       status = Some 404, statusCode = None, error = None\<rparr>)) = OpenAINotFoundError \<and>
   addFileToVectorStore
     (Inr \<lparr>file_id = ''file-1'', file_status = ''in_progress'', created_at = 1700000000,
           last_error_message = None\<rparr>)
     (\<lambda>k. Inl \<lparr>message = Some ''No file found'', type = None, status = Some 404,
               statusCode = None, error = None\<rparr>) =
   Inl (mapOpenAIError (Thrown \<lparr>message = Some ''No file found'', type = None,
       status = Some 404, statusCode = None, error = None\<rparr>))"
proof -
  let ?g = "\<lparr>file_id = ''file-1'', file_status = ''in_progress'', created_at = 1700000000,
           last_error_message = None\<rparr>"
  let ?x = "\<lparr>file_id = ''file-1'', file_status = ''failed'',
                    created_at = 1700000000, last_error_message = Some ''Unsupported file''\<rparr>"
  let ?e = "\<lparr>message = Some ''No file found'', type = None, status = Some 404,
               statusCode = None, error = None\<rparr>"
  let ?r = "\<lambda>k::nat. if k = 1 then Inr ?g else Inr ?x :: raw_error + vs_file"
  let ?p = "\<lambda>k::nat. Inr ?g :: raw_error + vs_file"
  let ?q = "\<lambda>k::nat. Inl ?e :: raw_error + vs_file"
  have st: "file_status ?g = ''in_progress''" by simp
  have k2: "(1::nat) \<le> 2" "(2::nat) \<le> 60" by simp_all
  have pre2: "\<forall>j. 1 \<le> j \<and> j < 2 \<longrightarrow> not_ready (?r j)"
  proof (intro allI impI)
    fix j :: nat
    assume "1 \<le> j \<and> j < 2"
    then have "j = 1" by linarith
    then show "not_ready (?r j)" by (simp add: not_ready_def poll_try_def)
  qed
  have h2: "?r 2 = Inr ?x \<and> file_status ?x = ''failed''" by simp
  note failed = attach_polling_errors [where c = ?g and k = 2 and retrieve = ?r,
      OF st k2 pre2, THEN conjunct1, THEN spec, THEN mp, OF h2, THEN conjunct2, THEN conjunct1]
  have k60: "(1::nat) \<le> 60" "(60::nat) \<le> 60" by simp_all
  have pre60: "\<forall>j. 1 \<le> j \<and> j < 60 \<longrightarrow> not_ready (?p j)"
    by (simp add: not_ready_def poll_try_def)
  have h60: "(60::nat) = 60 \<and>
      (\<exists>g. ?p 60 = Inr g \<and> file_status g \<notin> {''completed'', ''failed'', ''cancelled''})"
    by simp
  note timed = attach_polling_errors [where c = ?g and k = 60 and retrieve = ?p,
      OF st k60 pre60, THEN conjunct2, THEN conjunct2, THEN conjunct1, THEN mp, OF h60]
  have pre404: "\<forall>j. 1 \<le> j \<and> j < 60 \<longrightarrow> not_ready (?q j)"
    by (simp add: not_ready_def poll_try_def)
  have h404: "(60::nat) = 60 \<and> ?q 60 = Inl ?e \<and> status ?e = Some 404 \<and>
      \<not> recognized_tag (errorType (Thrown ?e))"
    by (simp add: recognized_tag_def errorType_def or_str_def truthy_str_def opt_type_def
        opt_error_type_def)
  note notfound = attach_polling_errors [where c = ?g and k = 60 and retrieve = ?q,
      OF st k60 pre404, THEN conjunct2, THEN conjunct2, THEN conjunct2, THEN conjunct2,
      THEN conjunct1, THEN spec, THEN mp, OF h404]
  from failed timed notfound show ?thesis by (simp add: or_str_default_def)
qed

section \<open>Properties of credential masking\<close>

lemma masked_short: "length (apiKey (config m)) \<le> 10 \<Longrightarrow> getMaskedApiKey m = ''***''"
  by (simp add: getMaskedApiKey_def)

lemma masked_long:
  "10 < length (apiKey (config m)) \<Longrightarrow>
     getMaskedApiKey m =
       take 7 (apiKey (config m)) @ ''...'' @
       drop (length (apiKey (config m)) - 4) (apiKey (config m))"
  by (simp add: getMaskedApiKey_def Let_def)

lemma masked_length: "10 < length (apiKey (config m)) \<Longrightarrow> length (getMaskedApiKey m) = 14"
  by (simp add: masked_long)

lemma masked_not_contained:
  assumes "14 < length (apiKey (config m))"
  shows "\<not> sublist (apiKey (config m)) (getMaskedApiKey m)"
proof
  assume "sublist (apiKey (config m)) (getMaskedApiKey m)"
  then have "length (apiKey (config m)) \<le> length (getMaskedApiKey m)"
    by (rule sublist_length_le)
  with assms masked_length [of m] show False by simp
qed

lemma validated_key_long:
  "validateAndMergeConfig cfg = Inr c \<Longrightarrow> 20 < length (apiKey c)"
  by (auto simp: validateAndMergeConfig_def isValidApiKey_def split: if_splits)

lemma constructible_key_long: "constructible m \<Longrightarrow> 20 < length (apiKey (config m))"
proof (induction rule: constructible.induct)
  case (built cfg m)
  then show ?case
    by (auto simp: new_OpenAIConfigManager_def split: sum.splits dest: validated_key_long)
next
  case (updated m updates m')
  from updated.hyps(2) show ?case
    by (auto simp: updateConfig_def split: sum.splits dest: validated_key_long)
qed

text \<open>
  C9: for every credential a configuration manager can hold (all of them are longer
  than 10 characters, validation asks for more than 20) \<open>getMaskedApiKey\<close> shows only the
  first 7 and the last 4 characters with three dots between them, 14 characters in all,
  and the result never contains the full credential. The branch for a credential of at
  most 10 characters returns the constant \<open>***\<close>, which shows none of it, and the branch
  for a longer one has the same form whatever the manager.
\<close>

theorem getMaskedApiKey_masks:
  assumes "constructible m"
  shows
    "10 < length (apiKey (config m)) \<and>
     getMaskedApiKey m =
       take 7 (apiKey (config m)) @ ''...'' @
       drop (length (apiKey (config m)) - 4) (apiKey (config m)) \<and>
     length (getMaskedApiKey m) = 14 \<and>
     \<not> sublist (apiKey (config m)) (getMaskedApiKey m) \<and>
     getMaskedApiKey m \<noteq> apiKey (config m) \<and>
     (\<forall>m'. length (apiKey (config m')) \<le> 10 \<longrightarrow> getMaskedApiKey m' = ''***'') \<and>
     (\<forall>m'. 10 < length (apiKey (config m')) \<longrightarrow>
        getMaskedApiKey m' =
          take 7 (apiKey (config m')) @ ''...'' @
          drop (length (apiKey (config m')) - 4) (apiKey (config m')) \<and>
        length (getMaskedApiKey m') = 14)"
proof -
  from assms have long: "20 < length (apiKey (config m))" by (rule constructible_key_long)
  then have l10: "10 < length (apiKey (config m))" and l14: "14 < length (apiKey (config m))"
    by simp_all
  have form: "getMaskedApiKey m =
       take 7 (apiKey (config m)) @ ''...'' @
       drop (length (apiKey (config m)) - 4) (apiKey (config m))"
    using l10 by (rule masked_long)
  have len: "length (getMaskedApiKey m) = 14" using l10 by (rule masked_length)
  have hidden: "\<not> sublist (apiKey (config m)) (getMaskedApiKey m)"
    using l14 by (rule masked_not_contained)
  have differs: "getMaskedApiKey m \<noteq> apiKey (config m)"
    using len long by auto
  have short: "\<forall>m'. length (apiKey (config m')) \<le> 10 \<longrightarrow> getMaskedApiKey m' = ''***''"
    using masked_short by blast
  have longer: "\<forall>m'. 10 < length (apiKey (config m')) \<longrightarrow>
        getMaskedApiKey m' =
          take 7 (apiKey (config m')) @ ''...'' @
          drop (length (apiKey (config m')) - 4) (apiKey (config m')) \<and>
        length (getMaskedApiKey m') = 14"
    using masked_long masked_length by blast
  show ?thesis by (intro conjI) (rule l10 form len hidden differs short longer)+
qed

theorem getMaskedApiKey_masks_witness:
  "new_OpenAIConfigManager
     \<lparr>p_apiKey = Some ''sk-proj-0123456789abcdefghij'', p_organization = None,
      p_baseURL = None, p_timeout = None, p_maxRetries = None, p_defaultHeaders = None\<rparr> =
   Inr \<lparr>config = \<lparr>apiKey = ''sk-proj-0123456789abcdefghij'', organization = None,
          baseURL = Some ''https://api.openai.com/v1'', timeout = Some 60000,
          maxRetries = Some 3,
          defaultHeaders = Some [(''OpenAI-Beta'', ''assistants=v2'')]\<rparr>\<rparr> \<and>
   getMaskedApiKey
     \<lparr>config = \<lparr>apiKey = ''sk-proj-0123456789abcdefghij'', organization = None,
          baseURL = Some ''https://api.openai.com/v1'', timeout = Some 60000,
          maxRetries = Some 3,
          defaultHeaders = Some [(''OpenAI-Beta'', ''assistants=v2'')]\<rparr>\<rparr> = ''sk-proj...ghij'' \<and>
   \<not> sublist ''sk-proj-0123456789abcdefghij''
     (getMaskedApiKey
       \<lparr>config = \<lparr>apiKey = ''sk-proj-0123456789abcdefghij'', organization = None,
          baseURL = Some ''https://api.openai.com/v1'', timeout = Some 60000,
          maxRetries = Some 3,
          defaultHeaders = Some [(''OpenAI-Beta'', ''assistants=v2'')]\<rparr>\<rparr>)"
proof -
  let ?cfg = "\<lparr>p_apiKey = Some ''sk-proj-0123456789abcdefghij'', p_organization = None,
      p_baseURL = None, p_timeout = None, p_maxRetries = None, p_defaultHeaders = None\<rparr>"
  let ?m = "\<lparr>config = \<lparr>apiKey = ''sk-proj-0123456789abcdefghij'', organization = None,
          baseURL = Some ''https://api.openai.com/v1'', timeout = Some 60000,
          maxRetries = Some 3,
          defaultHeaders = Some [(''OpenAI-Beta'', ''assistants=v2'')]\<rparr>\<rparr>"
  have b: "new_OpenAIConfigManager ?cfg = Inr ?m"
    by (simp add: new_OpenAIConfigManager_def validateAndMergeConfig_def truthy_str_def
        isValidApiKey_def over_def DEFAULT_OPENAI_CONFIG_def)
  then have c: "constructible ?m" by (rule constructible.built)
  note r = getMaskedApiKey_masks [OF c]
  from r [THEN conjunct2, THEN conjunct1]
  have a: "getMaskedApiKey ?m = ''sk-proj...ghij''" by simp
  from r [THEN conjunct2, THEN conjunct2, THEN conjunct2, THEN conjunct1]
  have h: "\<not> sublist ''sk-proj-0123456789abcdefghij'' (getMaskedApiKey ?m)" by simp
  from a b h show ?thesis by simp
qed

section \<open>Properties of the provider registry\<close>

lemma emit_fields [simp]:
  "providers (emit lv msg dat s) = providers s"
  "instance_slot (emit lv msg dat s) = instance_slot s"
  "constructed (emit lv msg dat s) = constructed s"
  "logged (emit lv msg dat s) = logged s @ [\<lparr>level = lv, log_message = msg, log_data = dat\<rparr>]"
  by (simp_all add: emit_def)

lemma getProvider_registered:
  "providers s ty = Some p \<Longrightarrow> getProvider env ty s = (Inr (Some p), s)"
  by (simp add: getProvider_def)

lemma getProvider_registers:
  assumes "getProvider env ty s = (Inr (Some p), s1)"
  shows "providers s1 ty = Some p"
proof (cases "providers s ty")
  case (Some q)
  with assms show ?thesis by (simp add: getProvider_def)
next
  case None
  with assms show ?thesis
    by (auto simp: getProvider_def split: AIProviderType.splits prod.splits sum.splits
        option.splits if_splits)
qed

lemma validate_fails:
  "\<not> (truthy_str (p_apiKey cfg) \<and> isValidApiKey (the (p_apiKey cfg))) \<Longrightarrow>
     \<exists>err. validateAndMergeConfig cfg = Inl err"
  by (auto simp: validateAndMergeConfig_def)

lemma createOpenAIProvider_unavailable:
  assumes "\<not> credential_ok env" and "instance_slot s = None"
  shows "\<exists>s1. createOpenAIProvider env s = (Inr None, s1) \<and> providers s1 = providers s \<and>
           instance_slot s1 = None \<and> (\<exists>entries. entries \<noteq> [] \<and> logged s1 = logged s @ entries)"
proof (cases "truthy_str (OPENAI_API_KEY env)")
  case False
  with assms(2) show ?thesis by (simp add: createOpenAIProvider_def)
next
  case True
  with assms(1) have bad: "\<not> isValidApiKey (the (OPENAI_API_KEY env))"
    by (simp add: credential_ok_def)
  let ?cfg = "\<lparr>p_apiKey = OPENAI_API_KEY env, p_organization = OPENAI_ORGANIZATION env,
                       p_baseURL = None, p_timeout = None, p_maxRetries = None,
                       p_defaultHeaders = None\<rparr>"
  from bad obtain err where "validateAndMergeConfig ?cfg = Inl err"
    using validate_fails [of ?cfg] by auto
  then have "new_OpenAIConfigManager ?cfg = Inl err" by (simp add: new_OpenAIConfigManager_def)
  with True assms(2) show ?thesis
    by (simp add: createOpenAIProvider_def getInstance_def new_OpenAIProvider_def Let_def)
qed

lemma getProvider_unavailable_step:
  assumes "\<not> credential_ok env" and "providers s ty = None" and "instance_slot s = None"
  shows "\<exists>s1. getProvider env ty s = (Inr None, s1) \<and> providers s1 = providers s \<and>
           instance_slot s1 = None \<and> (\<exists>entries. entries \<noteq> [] \<and> logged s1 = logged s @ entries)"
proof (cases ty)
  case OPENAI
  from createOpenAIProvider_unavailable [OF assms(1,3)] obtain s1 where
    "createOpenAIProvider env s = (Inr None, s1)" "providers s1 = providers s"
    "instance_slot s1 = None" "\<exists>entries. entries \<noteq> [] \<and> logged s1 = logged s @ entries" by blast
  with OPENAI assms(2) show ?thesis by (simp add: getProvider_def)
next
  case (OTHER t)
  with assms(2,3) show ?thesis by (simp add: getProvider_def)
qed

lemma reachable_unregistered:
  assumes "\<not> credential_ok env" and "reachable env s"
  shows "providers s = Map.empty \<and> instance_slot s = None"
  using assms(2)
proof (induction rule: reachable.induct)
  case start
  show ?case by (simp add: initial_state_def)
next
  case (get s ty)
  then have "providers s ty = None" "instance_slot s = None" by simp_all
  from getProvider_unavailable_step [OF assms(1) this] get.IH show ?case by auto
next
  case (reset s)
  show ?case by (simp add: resetAll_def resetInstance_def)
qed

text \<open>
  C7: when the credential is missing or malformed, in every state the process reaches
  from start-up through the registry's operations and for every provider type,
  \<open>getProvider\<close> returns \<open>null\<close> and raises nothing; the registry and the singleton slot
  are left as they were and the only effect is added log lines.
\<close>

theorem getProvider_unavailable:
  assumes "\<not> credential_ok env" and "reachable env s"
  shows "fst (getProvider env ty s) = Inr None \<and>
         providers (snd (getProvider env ty s)) = providers s \<and>
         instance_slot (snd (getProvider env ty s)) = instance_slot s \<and>
         (\<exists>entries. entries \<noteq> [] \<and>
            logged (snd (getProvider env ty s)) = logged s @ entries)"
proof -
  from reachable_unregistered [OF assms] have "providers s ty = None" "instance_slot s = None"
    by simp_all
  from getProvider_unavailable_step [OF assms(1) this] \<open>instance_slot s = None\<close>
  show ?thesis by auto
qed

theorem getProvider_unavailable_witness:
  "\<not> credential_ok \<lparr>OPENAI_API_KEY = Some ''my-secret'', OPENAI_ORGANIZATION = None\<rparr> \<and>
   fst (getProvider \<lparr>OPENAI_API_KEY = Some ''my-secret'', OPENAI_ORGANIZATION = None\<rparr> OPENAI
          initial_state) = Inr None \<and>
   \<not> credential_ok \<lparr>OPENAI_API_KEY = None, OPENAI_ORGANIZATION = None\<rparr> \<and>
   fst (getProvider \<lparr>OPENAI_API_KEY = None, OPENAI_ORGANIZATION = None\<rparr> OPENAI
          initial_state) = Inr None"
proof -
  have a: "\<not> credential_ok \<lparr>OPENAI_API_KEY = Some ''my-secret'', OPENAI_ORGANIZATION = None\<rparr>"
    by (simp add: credential_ok_def isValidApiKey_def)
  have b: "\<not> credential_ok \<lparr>OPENAI_API_KEY = None, OPENAI_ORGANIZATION = None\<rparr>"
    by (simp add: credential_ok_def truthy_str_def)
  from getProvider_unavailable [OF a reachable.start, of OPENAI]
    getProvider_unavailable [OF b reachable.start, of OPENAI] a b
  show ?thesis by blast
qed

text \<open>
  C8: when a call of \<open>getProvider\<close> returns a provider, the next call for the same type,
  with nothing in between, returns the same object (the same \<open>oid\<close>), leaves the state
  as it is and constructs nothing.
\<close>

theorem getProvider_singleton:
  assumes "getProvider env ty s = (Inr (Some p), s1)"
  shows "getProvider env' ty s1 = (Inr (Some p), s1) \<and>
         map_option oid (projr (fst (getProvider env' ty s1))) = Some (oid p) \<and>
         constructed (snd (getProvider env' ty s1)) = constructed s1"
proof -
  from assms have "providers s1 ty = Some p" by (rule getProvider_registers)
  then have "getProvider env' ty s1 = (Inr (Some p), s1)" by (rule getProvider_registered)
  then show ?thesis by simp
qed


theorem getProvider_singleton_witness:
  "map_option oid (projr (fst (getProvider
      \<lparr>OPENAI_API_KEY = Some ''sk-proj-0123456789abcdefghij'', OPENAI_ORGANIZATION = None\<rparr>
      OPENAI initial_state))) = Some 0 \<and>
   map_option oid (projr (fst (getProvider
      \<lparr>OPENAI_API_KEY = Some ''sk-proj-0123456789abcdefghij'', OPENAI_ORGANIZATION = None\<rparr>
      OPENAI
      (snd (getProvider
        \<lparr>OPENAI_API_KEY = Some ''sk-proj-0123456789abcdefghij'', OPENAI_ORGANIZATION = None\<rparr>
        OPENAI initial_state))))) = Some 0 \<and>
   constructed (snd (getProvider
      \<lparr>OPENAI_API_KEY = Some ''sk-proj-0123456789abcdefghij'', OPENAI_ORGANIZATION = None\<rparr>
      OPENAI
      (snd (getProvider
        \<lparr>OPENAI_API_KEY = Some ''sk-proj-0123456789abcdefghij'', OPENAI_ORGANIZATION = None\<rparr>
        OPENAI initial_state)))) = 1"
proof -
  let ?E = "\<lparr>OPENAI_API_KEY = Some ''sk-proj-0123456789abcdefghij'',
             OPENAI_ORGANIZATION = None\<rparr>"
  have first: "\<exists>p. fst (getProvider ?E OPENAI initial_state) = Inr (Some p) \<and> oid p = 0 \<and>
      constructed (snd (getProvider ?E OPENAI initial_state)) = 1"
    by (simp add: getProvider_def createOpenAIProvider_def getInstance_def
        new_OpenAIProvider_def new_OpenAIConfigManager_def validateAndMergeConfig_def
        isValidApiKey_def truthy_str_def initial_state_def isReady_def Let_def)
  then obtain p where p: "fst (getProvider ?E OPENAI initial_state) = Inr (Some p)"
    and o: "oid p = 0"
    and c: "constructed (snd (getProvider ?E OPENAI initial_state)) = 1" by blast
  from p have "getProvider ?E OPENAI initial_state =
      (Inr (Some p), snd (getProvider ?E OPENAI initial_state))"
    by (simp add: prod_eq_iff)
  from getProvider_singleton [OF this, of ?E] p o c show ?thesis by simp
qed

end
